theory Spec2Isabelle
  imports Main "HOL-Library.Word"
begin

section \<open>Values, library interface and errors\<close>

text \<open>
  The client (\<^verbatim>\<open>uipath.py\<close>) and its schemas (\<^verbatim>\<open>models.py\<close>) are embedded
  as functions on an explicit state. Python values that flow through the client are
  the values \<^verbatim>\<open>json.loads\<close> produces, plus \<^verbatim>\<open>datetime\<close> objects produced by
  schema validation. A float is kept as its IEEE-754 bit pattern; the client never
  computes with one.
\<close>

datatype datetime = Datetime (posix_micro: int) (utcoffset: "int option")

datatype pyval =
    PNone
  | PBool bool
  | PInt int
  | PFloat "64 word"
  | PStr string
  | PList "pyval list"
  | PDict "(string \<times> pyval) list"
  | PDatetime datetime

text \<open>The declared type of a schema field (the annotation without \<^verbatim>\<open>| None\<close>).\<close>

datatype ftype = TInt | TStr | TBool | TDatetime | TList

text \<open>
  What the client takes from \<^verbatim>\<open>json\<close>, \<^verbatim>\<open>pydantic\<close> (v1) and the Python
  built-ins is a parameter of the model:
  \<^item> \<open>json_loads\<close>: decoding and parsing a response body, \<open>None\<close> when it raises;
  \<^item> \<open>coerce\<close>: pydantic's validator of a declared primitive type applied to a
    value that is not \<^verbatim>\<open>None\<close>, \<open>None\<close> when the value is rejected;
  \<^item> \<open>dict_builtin\<close>: \<^verbatim>\<open>dict(value)\<close> on a value that is not a dict, as keyword
    arguments, \<open>None\<close> when pydantic reports a \<^verbatim>\<open>DictError\<close>;
  \<^item> \<open>py_repr\<close>: \<^verbatim>\<open>str(value)\<close> for floats, lists, dicts and datetimes.
\<close>

record lib =
  json_loads :: "string \<Rightarrow> pyval option"
  coerce :: "ftype \<Rightarrow> pyval \<Rightarrow> pyval option"
  dict_builtin :: "pyval \<Rightarrow> (string \<times> pyval) list option"
  py_repr :: "pyval \<Rightarrow> string"

datatype error =
    RequestException
  | JSONDecodeError
  | KeyError string
  | TypeError
  | ValidationError
  | FileNotFoundError string
  | OSError string

subsection \<open>String formatting\<close>

definition digit :: "nat \<Rightarrow> char" where
  "digit d = char_of (48 + d)"

fun str_nat :: "nat \<Rightarrow> string" where
  "str_nat n = (if n < 10 then [digit n] else str_nat (n div 10) @ [digit (n mod 10)])"

declare str_nat.simps [simp del]

definition str_int :: "int \<Rightarrow> string" where
  "str_int i = (if i < 0 then CHR ''-'' # str_nat (nat (- i)) else str_nat (nat i))"

text \<open>\<^verbatim>\<open>f"{v}"\<close>: the \<^verbatim>\<open>str\<close> of a value.\<close>

fun py_str :: "lib \<Rightarrow> pyval \<Rightarrow> string" where
  "py_str L PNone = ''None''"
| "py_str L (PBool b) = (if b then ''True'' else ''False'')"
| "py_str L (PInt i) = str_int i"
| "py_str L (PStr s) = s"
| "py_str L v = py_repr L v"

text \<open>\<^verbatim>\<open>sep.join(xs)\<close>\<close>

fun join :: "string \<Rightarrow> string list \<Rightarrow> string" where
  "join sep [] = []"
| "join sep [x] = x"
| "join sep (x # y # ys) = x @ sep @ join sep (y # ys)"

text \<open>\<^verbatim>\<open>str.lower\<close> on ASCII text (the only calls are on the literals
  \<^verbatim>\<open>"scalar"\<close> and \<^verbatim>\<open>"list"\<close>).\<close>

definition lower_char :: "char \<Rightarrow> char" where
  "lower_char c =
     (let n = (of_char c :: nat) in if 65 \<le> n \<and> n \<le> 90 then char_of (n + 32) else c)"

definition lower :: "string \<Rightarrow> string" where
  "lower s = map lower_char s"

text \<open>\<^verbatim>\<open>obj[key]\<close> with a string key, on a parsed JSON value.\<close>

fun py_getitem :: "pyval \<Rightarrow> string \<Rightarrow> error + pyval" where
  "py_getitem (PDict kvs) k =
     (case map_of kvs k of None \<Rightarrow> Inl (KeyError k) | Some v \<Rightarrow> Inr v)"
| "py_getitem v k = Inl TypeError"

section \<open>Schemas (models.py)\<close>

text \<open>
  A pydantic model is its class name and its fields in declaration order. A field has
  its local name, the alias given to \<^verbatim>\<open>Field(alias=...)\<close>, its declared type,
  whether it is declared \<^verbatim>\<open>T | None\<close> with \<^verbatim>\<open>default=None\<close>, and its
  \<^verbatim>\<open>@validator(..., pre=True)\<close> function if it has one.
\<close>

record fld =
  fld_name :: string
  fld_alias :: "string option"
  fld_type :: ftype
  fld_optional :: bool
  fld_pre :: "(pyval \<Rightarrow> pyval) option"

record model =
  model_name :: string
  model_fields :: "fld list"

definition req :: "string \<Rightarrow> string \<Rightarrow> ftype \<Rightarrow> fld" where
  "req n a t = \<lparr>fld_name = n, fld_alias = Some a, fld_type = t, fld_optional = False,
                fld_pre = None\<rparr>"

definition opt :: "string \<Rightarrow> string \<Rightarrow> ftype \<Rightarrow> fld" where
  "opt n a t = \<lparr>fld_name = n, fld_alias = Some a, fld_type = t, fld_optional = True,
                fld_pre = None\<rparr>"

definition ListAssets :: model where
  "ListAssets = \<lparr>model_name = ''ListAssets'', model_fields =
     [req ''id'' ''Id'' TInt,
      req ''name'' ''Name'' TStr,
      opt ''external_name'' ''ExternalName'' TStr,
      req ''has_default_value'' ''HasDefaultValue'' TBool,
      req ''value'' ''Value'' TStr,
      req ''value_scope'' ''ValueScope'' TStr,
      req ''value_type'' ''ValueType'' TStr,
      req ''int_value'' ''IntValue'' TInt,
      req ''string_value'' ''StringValue'' TStr,
      req ''bool_value'' ''BoolValue'' TBool,
      req ''credential_username'' ''CredentialUsername'' TStr,
      opt ''credential_store_id'' ''CredentialStoreId'' TInt,
      req ''can_be_deleted'' ''CanBeDeleted'' TBool,
      opt ''description'' ''Description'' TStr]\<rparr>"

definition ListBuckets :: model where
  "ListBuckets = \<lparr>model_name = ''ListBuckets'', model_fields =
     [req ''id'' ''Id'' TInt,
      req ''identifier'' ''Identifier'' TStr,
      req ''name'' ''Name'' TStr,
      opt ''description'' ''Description'' TStr]\<rparr>"

definition ListCalendars :: model where
  "ListCalendars = \<lparr>model_name = ''ListCalendars'', model_fields =
     [req ''id'' ''Id'' TInt,
      req ''name'' ''Name'' TStr,
      req ''excluded_dates'' ''ExcludedDates'' TList,
      opt ''time_zone_id'' ''TimeZoneId'' TStr]\<rparr>"

definition ListEnvironments :: model where
  "ListEnvironments = \<lparr>model_name = ''ListEnvironments'', model_fields =
     [req ''id'' ''Id'' TInt,
      req ''name'' ''Name'' TStr,
      req ''type'' ''Type'' TStr,
      opt ''description'' ''Description'' TStr]\<rparr>"

definition ListJobs :: model where
  "ListJobs = \<lparr>model_name = ''ListJobs'', model_fields =
     [req ''id'' ''Id'' TInt,
      req ''key'' ''Key'' TStr,
      req ''release_name'' ''ReleaseName'' TStr,
      opt ''host_machine_name'' ''HostMachineName'' TStr,
      req ''type'' ''Type'' TStr,
      opt ''starting_schedule_id'' ''StartingScheduleId'' TInt,
      opt ''creation_time'' ''CreationTime'' TDatetime,
      opt ''start_time'' ''StartTime'' TDatetime,
      opt ''end_time'' ''EndTime'' TDatetime,
      req ''state'' ''State'' TStr,
      req ''source'' ''Source'' TStr]\<rparr>"

text \<open>
  \<^verbatim>\<open>
  @validator("robot_versions", pre=True)
  def extract_robot_version(cls, value):
      if isinstance(value, list) and len(value) > 0 and isinstance(value[0], dict):
          return value[0].get("Version")
      return None
  \<close>
\<close>

fun extract_robot_version :: "pyval \<Rightarrow> pyval" where
  "extract_robot_version (PList (PDict d # rest)) =
     (case map_of d ''Version'' of None \<Rightarrow> PNone | Some v \<Rightarrow> v)"
| "extract_robot_version value = PNone"

definition ListMachines :: model where
  "ListMachines = \<lparr>model_name = ''ListMachines'', model_fields =
     [req ''id'' ''Id'' TInt,
      req ''name'' ''Name'' TStr,
      opt ''description'' ''Description'' TStr,
      req ''type'' ''Type'' TStr,
      req ''non_production_slots'' ''NonProductionSlots'' TInt,
      req ''unattended_slots'' ''UnattendedSlots'' TInt,
      (opt ''robot_versions'' ''RobotVersions'' TStr)
        \<lparr>fld_pre := Some extract_robot_version\<rparr>]\<rparr>"

definition ListProcesses :: model where
  "ListProcesses = \<lparr>model_name = ''ListProcesses'', model_fields =
     [req ''id'' ''Id'' TStr,
      req ''key'' ''Key'' TStr,
      req ''version'' ''Version'' TStr,
      req ''published'' ''Published'' TDatetime,
      req ''authors'' ''Authors'' TStr,
      opt ''description'' ''Description'' TStr]\<rparr>"

definition ListQueues :: model where
  "ListQueues = \<lparr>model_name = ''ListQueues'', model_fields =
     [req ''id'' ''Id'' TInt,
      req ''name'' ''Name'' TStr,
      opt ''description'' ''Description'' TStr]\<rparr>"

definition ListQueueItems :: model where
  "ListQueueItems = \<lparr>model_name = ''ListQueueItems'', model_fields =
     [req ''id'' ''Id'' TInt,
      req ''queue_definition_id'' ''QueueDefinitionId'' TInt,
      req ''status'' ''Status'' TStr,
      req ''reference'' ''Reference'' TStr,
      req ''creation_time'' ''CreationTime'' TDatetime,
      opt ''start_processing'' ''StartProcessing'' TDatetime,
      opt ''end_processing'' ''EndProcessing'' TDatetime,
      req ''retry_number'' ''RetryNumber'' TInt,
      req ''specific_data'' ''SpecificData'' TStr]\<rparr>"

definition GetQueueItem :: model where
  "GetQueueItem = \<lparr>model_name = ''GetQueueItem'', model_fields =
     [req ''id'' ''Id'' TInt,
      req ''queue_definition_id'' ''QueueDefinitionId'' TInt,
      req ''status'' ''Status'' TStr,
      req ''reference'' ''Reference'' TStr,
      req ''creation_time'' ''CreationTime'' TDatetime,
      opt ''start_processing'' ''StartProcessing'' TDatetime,
      opt ''end_processing'' ''EndProcessing'' TDatetime,
      req ''retry_number'' ''RetryNumber'' TInt,
      req ''specific_data'' ''SpecificData'' TStr]\<rparr>"

definition AddQueueItem :: model where
  "AddQueueItem = \<lparr>model_name = ''AddQueueItem'', model_fields =
     [req ''id'' ''Id'' TInt,
      req ''organization_unit_id'' ''OrganizationUnitId'' TInt,
      req ''queue_definition_id'' ''QueueDefinitionId'' TInt]\<rparr>"

definition ListReleases :: model where
  "ListReleases = \<lparr>model_name = ''ListReleases'', model_fields =
     [req ''id'' ''Id'' TInt,
      req ''key'' ''Key'' TStr,
      req ''process_key'' ''ProcessKey'' TStr,
      req ''process_version'' ''ProcessVersion'' TStr,
      opt ''environment_id'' ''EnvironmentId'' TStr]\<rparr>"

definition ListRobots :: model where
  "ListRobots = \<lparr>model_name = ''ListRobots'', model_fields =
     [req ''id'' ''Id'' TInt,
      opt ''machine_name'' ''MachineName'' TStr,
      req ''name'' ''Name'' TStr,
      req ''username'' ''Username'' TStr,
      req ''type'' ''Type'' TStr,
      req ''robot_environments'' ''RobotEnvironments'' TStr]\<rparr>"

definition ListRobotLogs :: model where
  "ListRobotLogs = \<lparr>model_name = ''ListRobotLogs'', model_fields =
     [req ''id'' ''Id'' TInt,
      req ''job_key'' ''JobKey'' TStr,
      req ''level'' ''Level'' TStr,
      req ''windows_identity'' ''WindowsIdentity'' TStr,
      req ''process_name'' ''ProcessName'' TStr,
      req ''time_stamp'' ''TimeStamp'' TStr,
      req ''message'' ''Message'' TStr,
      req ''robot_name'' ''RobotName'' TStr,
      req ''Machine_id'' ''MachineId'' TInt]\<rparr>"

definition ListRoles :: model where
  "ListRoles = \<lparr>model_name = ''ListRoles'', model_fields =
     [req ''id'' ''Id'' TInt,
      req ''name'' ''Name'' TStr,
      req ''display_name'' ''DisplayName'' TStr,
      req ''type'' ''Type'' TStr]\<rparr>"

definition ListSchedules :: model where
  "ListSchedules = \<lparr>model_name = ''ListSchedules'', model_fields =
     [req ''id'' ''Id'' TInt,
      req ''name'' ''Name'' TStr,
      req ''package_name'' ''PackageName'' TStr,
      opt ''environment_id'' ''EnvironmentId'' TStr,
      opt ''environment_name'' ''EnvironmentName'' TStr,
      req ''start_process_cron'' ''StartProcessCron'' TStr,
      req ''start_process_cron_summary'' ''StartProcessCronSummary'' TStr,
      req ''enabled'' ''Enabled'' TBool]\<rparr>"

definition ListSessions :: model where
  "ListSessions = \<lparr>model_name = ''ListSessions'', model_fields =
     [req ''id'' ''Id'' TInt,
      opt ''machine_id'' ''MachineId'' TStr,
      req ''host_machine_name'' ''HostMachineName'' TStr,
      opt ''machine_name'' ''MachineName'' TStr,
      req ''state'' ''State'' TStr,
      req ''reporting_time'' ''ReportingTime'' TStr,
      opt ''organization_unit_id'' ''OrganizationUnitId'' TStr,
      opt ''folder_name'' ''FolderName'' TStr]\<rparr>"

definition all_models :: "model list" where
  "all_models = [ListAssets, ListBuckets, ListCalendars, ListEnvironments, ListJobs,
     ListMachines, ListProcesses, ListQueues, ListQueueItems, GetQueueItem, AddQueueItem,
     ListReleases, ListRobots, ListRobotLogs, ListRoles, ListSchedules, ListSessions]"

subsection \<open>Validation of a record against a schema\<close>

text \<open>
  The key a field is read from: its alias, or its own name when it has none
  (\<^verbatim>\<open>field.alias\<close>).
\<close>

definition alias_of :: "fld \<Rightarrow> string" where
  "alias_of f = (case fld_alias f of None \<Rightarrow> fld_name f | Some a \<Rightarrow> a)"

text \<open>
  A value present in the input goes through the field's pre-validators first; then
  \<^verbatim>\<open>None\<close> is accepted exactly by an optional field, and any other value is
  handed to the validator of the declared type.
\<close>

definition validate_field :: "lib \<Rightarrow> fld \<Rightarrow> pyval \<Rightarrow> pyval option" where
  "validate_field L f v =
     (let v1 = (case fld_pre f of None \<Rightarrow> v | Some g \<Rightarrow> g v) in
      if v1 = PNone then (if fld_optional f then Some PNone else None)
      else coerce L (fld_type f) v1)"

text \<open>
  Every field is looked up under its alias. A missing required field is an error; a
  missing optional field takes its default \<^verbatim>\<open>None\<close> without running validators;
  keys of the input that no field reads are ignored. The result is the validated values
  under the local names, in field order, and the aliases of the fields that failed.
\<close>

fun validate_fields ::
  "lib \<Rightarrow> fld list \<Rightarrow> (string \<times> pyval) list \<Rightarrow> (string \<times> pyval) list \<times> string list" where
  "validate_fields L [] input_data = ([], [])"
| "validate_fields L (f # fs) input_data =
     (let (values, errors) = validate_fields L fs input_data in
      case map_of input_data (alias_of f) of
        None \<Rightarrow>
          if fld_optional f then ((fld_name f, PNone) # values, errors)
          else (values, alias_of f # errors)
      | Some v \<Rightarrow>
          (case validate_field L f v of
             None \<Rightarrow> (values, alias_of f # errors)
           | Some v' \<Rightarrow> ((fld_name f, v') # values, errors)))"

text \<open>\<^verbatim>\<open>model(**kwargs).dict()\<close> for keyword arguments \<open>kwargs\<close>.\<close>

definition validate :: "lib \<Rightarrow> model \<Rightarrow> (string \<times> pyval) list \<Rightarrow> error + (string \<times> pyval) list" where
  "validate L m kwargs =
     (case validate_fields L (model_fields m) kwargs of
        (values, []) \<Rightarrow> Inr values
      | (values, e # es) \<Rightarrow> Inl ValidationError)"

text \<open>\<^verbatim>\<open>model(**content_raw).dict()\<close>: unpacking anything but a dict is a TypeError.\<close>

definition model_init :: "lib \<Rightarrow> model \<Rightarrow> pyval \<Rightarrow> error + (string \<times> pyval) list" where
  "model_init L m content_raw =
     (case content_raw of PDict kwargs \<Rightarrow> validate L m kwargs | _ \<Rightarrow> Inl TypeError)"

text \<open>
  One element of \<^verbatim>\<open>parse_obj_as(list[model], ...)\<close>: a dict is validated as it is,
  anything else goes through \<^verbatim>\<open>dict(value)\<close> first.
\<close>

definition model_validate :: "lib \<Rightarrow> model \<Rightarrow> pyval \<Rightarrow> (string \<times> pyval) list option" where
  "model_validate L m v =
     (case (case v of PDict kwargs \<Rightarrow> Some kwargs | _ \<Rightarrow> dict_builtin L v) of
        None \<Rightarrow> None
      | Some kwargs \<Rightarrow>
          (case validate L m kwargs of Inl e \<Rightarrow> None | Inr values \<Rightarrow> Some values))"

text \<open>
  \<^verbatim>\<open>[item.dict() for item in parse_obj_as(list[model], content_raw)]\<close>: the input
  must be a list, and every element must validate.
\<close>

definition parse_obj_as_list :: "lib \<Rightarrow> model \<Rightarrow> pyval \<Rightarrow> error + (string \<times> pyval) list list" where
  "parse_obj_as_list L m content_raw =
     (case content_raw of
        PList items \<Rightarrow>
          (case those (map (model_validate L m) items) of
             None \<Rightarrow> Inl ValidationError
           | Some validated_list \<Rightarrow> Inr validated_list)
      | _ \<Rightarrow> Inl ValidationError)"

section \<open>The client (uipath.py)\<close>

subsection \<open>State and environment\<close>

text \<open>
  \<^verbatim>\<open>UiPath.Configuration\<close>. The constructor stores the strings it is given; the
  token is whatever value the token endpoint's JSON holds under \<^verbatim>\<open>access_token\<close>,
  and \<^verbatim>\<open>None\<close> before that.
\<close>

record Configuration =
  cfg_url_base :: string
  cfg_client_id :: string
  cfg_refresh_token :: string
  cfg_token :: pyval
  cfg_scope :: string

text \<open>\<^verbatim>\<open>UiPath.Response\<close>\<close>

record Response =
  status_code :: int
  content :: pyval

datatype verb = GET | POST | PUT | DELETE

datatype payload =
    NoBody
  | FormData "(string \<times> string) list"
  | JsonBody pyval
  | FileData string

record request =
  rq_verb :: verb
  rq_url :: string
  rq_headers :: "(string \<times> string) list"
  rq_params :: "(string \<times> string) list"
  rq_body :: payload

text \<open>\<^verbatim>\<open>requests.Response\<close>: the status code and the raw body.\<close>

record http_response =
  http_status :: int
  http_content :: string

datatype level = INFO | WARNING

text \<open>
  The client object together with what it acts on: its configuration, the requests it
  has issued through its session (oldest first), the files it can read and has written,
  the write events (path and bytes, oldest first), and the records passed to its logger.
\<close>

record state =
  configuration :: Configuration
  sent :: "request list"
  fs :: "string \<rightharpoonup> string"
  writes :: "(string \<times> string) list"
  log :: "(level \<times> string) list"

text \<open>
  The environment. The network: the answer to the \<open>n\<close>-th request issued by the
  session, \<open>None\<close> when \<^verbatim>\<open>requests\<close> raises instead of returning a response. The
  file system: whether \<^verbatim>\<open>open(file=path, mode="wb")\<close> succeeds on a path; it raises
  an \<^verbatim>\<open>OSError\<close> otherwise (a missing directory, an empty path, no permission).
\<close>

record world =
  respond :: "nat \<Rightarrow> request \<Rightarrow> http_response option"
  writable :: "string \<Rightarrow> bool"

definition logger_info :: "string \<Rightarrow> state \<Rightarrow> state" where
  "logger_info msg st = st\<lparr>log := log st @ [(INFO, msg)]\<rparr>"

definition logger_warning :: "string \<Rightarrow> state \<Rightarrow> state" where
  "logger_warning msg st = st\<lparr>log := log st @ [(WARNING, msg)]\<rparr>"

text \<open>\<^verbatim>\<open>self._session.get/post/put/delete(...)\<close>\<close>

definition session_request :: "world \<Rightarrow> request \<Rightarrow> state \<Rightarrow> (error + http_response) \<times> state" where
  "session_request W r st =
     (case respond W (length (sent st)) r of
        None \<Rightarrow> (Inl RequestException, st\<lparr>sent := sent st @ [r]\<rparr>)
      | Some response \<Rightarrow> (Inr response, st\<lparr>sent := sent st @ [r]\<rparr>))"

text \<open>\<^verbatim>\<open>response.json()\<close>\<close>

definition response_json :: "lib \<Rightarrow> http_response \<Rightarrow> error + pyval" where
  "response_json L response =
     (case json_loads L (http_content response) of
        None \<Rightarrow> Inl JSONDecodeError
      | Some v \<Rightarrow> Inr v)"

text \<open>
  \<^verbatim>\<open>[field.alias for field in M.__fields__.values() if field.field_info.alias is not None]\<close>
\<close>

definition alias_list_of :: "model \<Rightarrow> string list" where
  "alias_list_of m = map alias_of (filter (\<lambda>f. fld_alias f \<noteq> None) (model_fields m))"

text \<open>The headers every Orchestrator call but \<^verbatim>\<open>list_roles\<close> builds.\<close>

definition folder_headers :: "lib \<Rightarrow> pyval \<Rightarrow> string \<Rightarrow> (string \<times> string) list" where
  "folder_headers L token fid =
     [(''Content-Type'', ''application/json''),
      (''Authorization'', ''Bearer '' @ py_str L token),
      (''X-UIPATH-OrganizationUnitID'', fid)]"

subsection \<open>Construction and authentication\<close>

definition auth :: "lib \<Rightarrow> world \<Rightarrow> state \<Rightarrow> (error + unit) \<times> state" where
  "auth L W st0 =
     (let st1 = logger_info ''Authenticating with UiPath Orchestrator using client credentials.'' st0;
          headers = [(''Connection'', ''keep-alive''),
                     (''Content-Type'', ''application/x-www-form-urlencoded'')];
          url_auth = ''https://cloud.uipath.com/adidas/identity_/connect/token'';
          body = [(''grant_type'', ''client_credentials''),
                  (''client_id'', cfg_client_id (configuration st1)),
                  (''client_secret'', cfg_refresh_token (configuration st1)),
                  (''scope'', cfg_scope (configuration st1))];
          (r, st2) = session_request W
             \<lparr>rq_verb = POST, rq_url = url_auth, rq_headers = headers, rq_params = [],
              rq_body = FormData body\<rparr> st1
      in case r of
           Inl e \<Rightarrow> (Inl e, st2)
         | Inr response \<Rightarrow>
             (let st3 = logger_info (''HTTP Status Code '' @ str_int (http_status response)) st2 in
              if http_status response = 200 then
                (case response_json L response of
                   Inl e \<Rightarrow> (Inl e, st3)
                 | Inr j \<Rightarrow>
                     (case py_getitem j ''access_token'' of
                        Inl e \<Rightarrow> (Inl e, st3)
                      | Inr t \<Rightarrow>
                          (Inr (), st3\<lparr>configuration := (configuration st3)\<lparr>cfg_token := t\<rparr>\<rparr>)))
              else (Inr (), st3)))"

text \<open>
  \<^verbatim>\<open>UiPath.__init__\<close>, on a file system \<open>files\<close>: store the credentials with no
  token, then authenticate.
\<close>

definition init ::
  "lib \<Rightarrow> world \<Rightarrow> (string \<rightharpoonup> string) \<Rightarrow> string \<Rightarrow> string \<Rightarrow> string \<Rightarrow> string \<Rightarrow> (error + unit) \<times> state" where
  "init L W files url_base client_id refresh_token scope =
     auth L W
       \<lparr>configuration =
          \<lparr>cfg_url_base = url_base, cfg_client_id = client_id,
           cfg_refresh_token = refresh_token, cfg_token = PNone, cfg_scope = scope\<rparr>,
        sent = [], fs = files, writes = [], log = []\<rparr>"

definition is_auth :: "state \<Rightarrow> bool \<times> state" where
  "is_auth st0 =
     (let st1 = logger_info ''Checking if authentication is being established with UiPath Orchestrator.'' st0
      in (if cfg_token (configuration st1) = PNone then False else True, st1))"

subsection \<open>Helpers\<close>

text \<open>
  \<^verbatim>\<open>_export_to_json\<close>: with a path, the message is logged, the file is opened for
  writing and the bytes are written; when the file cannot be opened, the error of
  \<^verbatim>\<open>open\<close> leaves the method and nothing is written.
\<close>

definition export_to_json ::
  "world \<Rightarrow> string \<Rightarrow> string option \<Rightarrow> state \<Rightarrow> (error + unit) \<times> state" where
  "export_to_json W c save_as st =
     (case save_as of
        None \<Rightarrow> (Inr (), st)
      | Some path \<Rightarrow>
          (let st1 = logger_info ''Exports response to JSON file.'' st
           in if writable W path
              then (Inr (), st1\<lparr>fs := (fs st1)(path \<mapsto> c), writes := writes st1 @ [(path, c)]\<rparr>)
              else (Inl (OSError path), st1)))"

definition handle_response :: "lib \<Rightarrow> http_response \<Rightarrow> model \<Rightarrow> string \<Rightarrow> error + pyval" where
  "handle_response L response m rtype =
     (if lower rtype = ''scalar'' then
        (case response_json L response of
           Inl e \<Rightarrow> Inl e
         | Inr content_raw \<Rightarrow>
             (case model_init L m content_raw of
                Inl e \<Rightarrow> Inl e
              | Inr validated \<Rightarrow> Inr (PDict validated)))
      else
        (case response_json L response of
           Inl e \<Rightarrow> Inl e
         | Inr j \<Rightarrow>
             (case py_getitem j ''value'' of
                Inl e \<Rightarrow> Inl e
              | Inr content_raw \<Rightarrow>
                  (case parse_obj_as_list L m content_raw of
                     Inl e \<Rightarrow> Inl e
                   | Inr validated_list \<Rightarrow> Inr (PList (map PDict validated_list))))))"

subsection \<open>The statements after the request\<close>

text \<open>
  The methods that return parsed content end with the same statements:
  \<^verbatim>\<open>
  self._logger.info(msg=f"HTTP Status Code {response.status_code}")
  content = None
  if response.status_code == <expected>:
      self._logger.info(msg="Request successful")
      self._export_to_json(content=response.content, save_as=save_as)
      content = self._handle_response(response=response, model=<M>, rtype=<rtype>)
  return self.Response(status_code=response.status_code, content=content)
  \<close>
\<close>

definition parsed_result ::
  "lib \<Rightarrow> world \<Rightarrow> int \<Rightarrow> model \<Rightarrow> string \<Rightarrow> string option \<Rightarrow> http_response \<Rightarrow> state
     \<Rightarrow> (error + Response) \<times> state" where
  "parsed_result L W expected m rtype save_as response st0 =
     (let st1 = logger_info (''HTTP Status Code '' @ str_int (http_status response)) st0 in
      if http_status response = expected then
        (let st2 = logger_info ''Request successful'' st1;
             (x, st3) = export_to_json W (http_content response) save_as st2
         in case x of
              Inl e \<Rightarrow> (Inl e, st3)
            | Inr u \<Rightarrow>
                (case handle_response L response m rtype of
                   Inl e \<Rightarrow> (Inl e, st3)
                 | Inr c \<Rightarrow> (Inr \<lparr>status_code = http_status response, content = c\<rparr>, st3)))
      else (Inr \<lparr>status_code = http_status response, content = PNone\<rparr>, st1))"

text \<open>
  The methods that return no content end with:
  \<^verbatim>\<open>
  self._logger.info(msg=f"HTTP Status Code {response.status_code}")
  content = None
  if response.status_code == <expected>:
      self._logger.info(msg="Request successful")
  return self.Response(status_code=response.status_code, content=content)
  \<close>
\<close>

definition plain_result :: "int \<Rightarrow> http_response \<Rightarrow> state \<Rightarrow> (error + Response) \<times> state" where
  "plain_result expected response st0 =
     (let st1 = logger_info (''HTTP Status Code '' @ str_int (http_status response)) st0 in
      if http_status response = expected then
        (let st2 = logger_info ''Request successful'' st1
         in (Inr \<lparr>status_code = http_status response, content = PNone\<rparr>, st2))
      else (Inr \<lparr>status_code = http_status response, content = PNone\<rparr>, st1))"

subsection \<open>The API methods\<close>

text \<open>
  Each method is written out with the source's local names. The argument
  \<^verbatim>\<open>verify=True\<close> of the session calls and the destructor, which only closes the
  session, have no counterpart here; a request whose URL comes from a response is
  issued under the \<^verbatim>\<open>str\<close> of that value.
\<close>

definition list_assets ::
  "lib \<Rightarrow> world \<Rightarrow> string \<Rightarrow> string option \<Rightarrow> state \<Rightarrow> (error + Response) \<times> state" where
  "list_assets L W fid save_as st0 =
     (let st1 = logger_info ''Retrieving all assets.'' st0;
          token = cfg_token (configuration st1);
          url_base = cfg_url_base (configuration st1);
          headers = folder_headers L token fid;
          url_query = url_base @ ''/odata/Assets'';
          alias_list = alias_list_of ListAssets;
          params = [(''$select'', join '','' alias_list)];
          (r, st') = session_request W
             \<lparr>rq_verb = GET, rq_url = url_query, rq_headers = headers, rq_params = params,
              rq_body = NoBody\<rparr> st1
      in case r of
           Inl e \<Rightarrow> (Inl e, st')
         | Inr response \<Rightarrow> parsed_result L W 200 ListAssets ''list'' save_as response st')"

definition list_buckets ::
  "lib \<Rightarrow> world \<Rightarrow> string \<Rightarrow> string option \<Rightarrow> state \<Rightarrow> (error + Response) \<times> state" where
  "list_buckets L W fid save_as st0 =
     (let st1 = logger_info ''Retrieving the list of all storage buckets.'' st0;
          token = cfg_token (configuration st1);
          url_base = cfg_url_base (configuration st1);
          headers = folder_headers L token fid;
          url_query = url_base @ ''/odata/Buckets'';
          alias_list = alias_list_of ListBuckets;
          params = [(''$select'', join '','' alias_list)];
          (r, st') = session_request W
             \<lparr>rq_verb = GET, rq_url = url_query, rq_headers = headers, rq_params = params,
              rq_body = NoBody\<rparr> st1
      in case r of
           Inl e \<Rightarrow> (Inl e, st')
         | Inr response \<Rightarrow> parsed_result L W 200 ListBuckets ''list'' save_as response st')"

definition create_bucket ::
  "lib \<Rightarrow> world \<Rightarrow> string \<Rightarrow> string \<Rightarrow> string \<Rightarrow> string option \<Rightarrow> state \<Rightarrow> (error + Response) \<times> state" where
  "create_bucket L W fid name guid description st0 =
     (let st1 = logger_info ''Creating a new storage bucket.'' st0;
          st2 = logger_info name st1;
          token = cfg_token (configuration st2);
          url_base = cfg_url_base (configuration st2);
          headers = folder_headers L token fid;
          description' = (case description of None \<Rightarrow> '''' | Some d \<Rightarrow> d);
          url_query = url_base @ ''/odata/Buckets'';
          body = PDict [(''Name'', PStr name), (''Description'', PStr description'),
                        (''Identifier'', PStr guid), (''StorageProvider'', PNone),
                        (''StorageParameters'', PNone), (''StorageContainer'', PNone),
                        (''CredentialStoreId'', PNone), (''ExternalName'', PNone),
                        (''Password'', PNone), (''FoldersCount'', PInt 0), (''Id'', PInt 0)];
          (r, st') = session_request W
             \<lparr>rq_verb = POST, rq_url = url_query, rq_headers = headers, rq_params = [],
              rq_body = JsonBody body\<rparr> st2
      in case r of
           Inl e \<Rightarrow> (Inl e, st')
         | Inr response \<Rightarrow> plain_result 201 response st')"

definition delete_bucket ::
  "lib \<Rightarrow> world \<Rightarrow> string \<Rightarrow> string \<Rightarrow> state \<Rightarrow> (error + Response) \<times> state" where
  "delete_bucket L W fid id' st0 =
     (let st1 = logger_info ''Deleting the specified storage bucket.'' st0;
          st2 = logger_info id' st1;
          token = cfg_token (configuration st2);
          url_base = cfg_url_base (configuration st2);
          headers = folder_headers L token fid;
          url_query = url_base @ ''/odata/Buckets('' @ id' @ '')'';
          (r, st') = session_request W
             \<lparr>rq_verb = DELETE, rq_url = url_query, rq_headers = headers, rq_params = [],
              rq_body = NoBody\<rparr> st2
      in case r of
           Inl e \<Rightarrow> (Inl e, st')
         | Inr response \<Rightarrow> plain_result 204 response st')"

text \<open>
  \<^verbatim>\<open>upload_bucket_file\<close> asks for a write URI and, on status 200, sends the local file
  to that URI with a second request; the returned status code is then the one of the
  second response.
\<close>

definition upload_bucket_file ::
  "lib \<Rightarrow> world \<Rightarrow> string \<Rightarrow> string \<Rightarrow> string \<Rightarrow> string \<Rightarrow> state \<Rightarrow> (error + Response) \<times> state" where
  "upload_bucket_file L W fid id' localpath remotepath st0 =
     (let st1 = logger_info ''Uploading file to the specified bucket.'' st0;
          st2 = logger_info id' st1;
          st3 = logger_info localpath st2;
          st4 = logger_info remotepath st3;
          token = cfg_token (configuration st4);
          url_base = cfg_url_base (configuration st4);
          headers = folder_headers L token fid;
          server_conf = ''UiPath.Server.Configuration.OData'';
          url_query = url_base @ ''/odata/Buckets('' @ id' @ '')/'' @ server_conf
                        @ ''.GetWriteUri?path='' @ remotepath @ ''&expiryInMinutes=0'';
          (r, st5) = session_request W
             \<lparr>rq_verb = GET, rq_url = url_query, rq_headers = headers, rq_params = [],
              rq_body = NoBody\<rparr> st4
      in case r of
           Inl e \<Rightarrow> (Inl e, st5)
         | Inr response \<Rightarrow>
             (let st6 = logger_info (''HTTP Status Code '' @ str_int (http_status response)) st5 in
              if http_status response = 200 then
                (case response_json L response of
                   Inl e \<Rightarrow> (Inl e, st6)
                 | Inr j \<Rightarrow>
                     (case py_getitem j ''Uri'' of
                        Inl e \<Rightarrow> (Inl e, st6)
                      | Inr uri \<Rightarrow>
                          (case fs st6 localpath of
                             None \<Rightarrow> (Inl (FileNotFoundError localpath), st6)
                           | Some file \<Rightarrow>
                               (let headers2 = [(''x-ms-blob-type'', ''BlockBlob'')];
                                    (r2, st7) = session_request W
                                       \<lparr>rq_verb = PUT, rq_url = py_str L uri,
                                        rq_headers = headers2, rq_params = [],
                                        rq_body = FileData file\<rparr> st6
                                in case r2 of
                                     Inl e \<Rightarrow> (Inl e, st7)
                                   | Inr response2 \<Rightarrow>
                                       (if http_status response2 = 200 then
                                          (Inr \<lparr>status_code = http_status response2, content = PNone\<rparr>,
                                           logger_info ''File uploaded successfully'' st7)
                                        else
                                          (Inr \<lparr>status_code = http_status response2, content = PNone\<rparr>,
                                           st7))))))
              else (Inr \<lparr>status_code = http_status response, content = PNone\<rparr>, st6)))"

definition delete_bucket_file ::
  "lib \<Rightarrow> world \<Rightarrow> string \<Rightarrow> string \<Rightarrow> string \<Rightarrow> state \<Rightarrow> (error + Response) \<times> state" where
  "delete_bucket_file L W fid id' filename st0 =
     (let st1 = logger_info ''Deleting the specified file from the storage bucket.'' st0;
          st2 = logger_info filename st1;
          token = cfg_token (configuration st2);
          url_base = cfg_url_base (configuration st2);
          headers = folder_headers L token fid;
          url_query = url_base @ ''/odata/Buckets('' @ id' @ '')/UiPath.Server.Configuration.OData.DeleteFile?path='' @ filename;
          (r, st') = session_request W
             \<lparr>rq_verb = DELETE, rq_url = url_query, rq_headers = headers, rq_params = [],
              rq_body = NoBody\<rparr> st2
      in case r of
           Inl e \<Rightarrow> (Inl e, st')
         | Inr response \<Rightarrow> plain_result 204 response st')"

definition list_calendars ::
  "lib \<Rightarrow> world \<Rightarrow> string \<Rightarrow> string option \<Rightarrow> state \<Rightarrow> (error + Response) \<times> state" where
  "list_calendars L W fid save_as st0 =
     (let st1 = logger_info ''Retrieving all calendars.'' st0;
          token = cfg_token (configuration st1);
          url_base = cfg_url_base (configuration st1);
          headers = folder_headers L token fid;
          url_query = url_base @ ''/odata/Calendars'';
          alias_list = alias_list_of ListCalendars;
          params = [(''$select'', join '','' alias_list)];
          (r, st') = session_request W
             \<lparr>rq_verb = GET, rq_url = url_query, rq_headers = headers, rq_params = params,
              rq_body = NoBody\<rparr> st1
      in case r of
           Inl e \<Rightarrow> (Inl e, st')
         | Inr response \<Rightarrow> parsed_result L W 200 ListCalendars ''list'' save_as response st')"

definition list_environments ::
  "lib \<Rightarrow> world \<Rightarrow> string \<Rightarrow> string option \<Rightarrow> state \<Rightarrow> (error + Response) \<times> state" where
  "list_environments L W fid save_as st0 =
     (let st1 = logger_info ''Retrieving all environments.'' st0;
          token = cfg_token (configuration st1);
          url_base = cfg_url_base (configuration st1);
          headers = folder_headers L token fid;
          url_query = url_base @ ''/odata/Environments'';
          alias_list = alias_list_of ListEnvironments;
          params = [(''$select'', join '','' alias_list)];
          (r, st') = session_request W
             \<lparr>rq_verb = GET, rq_url = url_query, rq_headers = headers, rq_params = params,
              rq_body = NoBody\<rparr> st1
      in case r of
           Inl e \<Rightarrow> (Inl e, st')
         | Inr response \<Rightarrow> parsed_result L W 200 ListEnvironments ''list'' save_as response st')"

definition list_jobs ::
  "lib \<Rightarrow> world \<Rightarrow> string \<Rightarrow> string \<Rightarrow> string option \<Rightarrow> state \<Rightarrow> (error + Response) \<times> state" where
  "list_jobs L W fid filter' save_as st0 =
     (let st1 = logger_info ''Retrieving jobs using the provided filter criteria.'' st0;
          st2 = logger_info filter' st1;
          token = cfg_token (configuration st2);
          url_base = cfg_url_base (configuration st2);
          headers = folder_headers L token fid;
          url_query = url_base @ ''/odata/Jobs'';
          alias_list = alias_list_of ListJobs;
          params = [(''$select'', join '','' alias_list), (''$filter'', filter')];
          (r, st') = session_request W
             \<lparr>rq_verb = GET, rq_url = url_query, rq_headers = headers, rq_params = params,
              rq_body = NoBody\<rparr> st2
      in case r of
           Inl e \<Rightarrow> (Inl e, st')
         | Inr response \<Rightarrow> parsed_result L W 200 ListJobs ''list'' save_as response st')"

text \<open>\<^verbatim>\<open>start_job\<close> checks no status code: it logs the code and returns it.\<close>

definition start_job ::
  "lib \<Rightarrow> world \<Rightarrow> string \<Rightarrow> string \<Rightarrow> int option \<Rightarrow> state \<Rightarrow> (error + Response) \<times> state" where
  "start_job L W fid process_key robot_id st0 =
     (let st1 = logger_info ''Initiating the process of starting a job.'' st0;
          st2 = logger_info process_key st1;
          st3 = logger_info
                  (py_str L (case robot_id of None \<Rightarrow> PNone | Some i \<Rightarrow> PInt i)) st2;
          token = cfg_token (configuration st3);
          url_base = cfg_url_base (configuration st3);
          headers = folder_headers L token fid;
          url_query = url_base @ ''/odata/Jobs/UiPath.Server.Configuration.OData.StartJobs'';
          body = (case robot_id of
                    Some i \<Rightarrow>
                      PDict [(''startInfo'',
                        PDict [(''ReleaseKey'', PStr process_key), (''Strategy'', PStr ''Specific''),
                               (''RobotIds'', PList [PInt i]), (''JobsCount'', PInt 0),
                               (''Source'', PStr ''Manual'')])]
                  | None \<Rightarrow>
                      PDict [(''startInfo'',
                        PDict [(''ReleaseKey'', PStr process_key), (''Strategy'', PStr ''JobsCount''),
                               (''JobsCount'', PInt 1), (''Source'', PStr ''Manual'')])]);
          (r, st4) = session_request W
             \<lparr>rq_verb = POST, rq_url = url_query, rq_headers = headers, rq_params = [],
              rq_body = JsonBody body\<rparr> st3
      in case r of
           Inl e \<Rightarrow> (Inl e, st4)
         | Inr response \<Rightarrow>
             (Inr \<lparr>status_code = http_status response, content = PNone\<rparr>,
              logger_info (''HTTP Status Code '' @ str_int (http_status response)) st4))"

definition stop_job ::
  "lib \<Rightarrow> world \<Rightarrow> string \<Rightarrow> string \<Rightarrow> state \<Rightarrow> (error + Response) \<times> state" where
  "stop_job L W fid id' st0 =
     (let st1 = logger_info ''Stopping the specified job.'' st0;
          st2 = logger_info id' st1;
          token = cfg_token (configuration st2);
          url_base = cfg_url_base (configuration st2);
          headers = folder_headers L token fid;
          url_query = url_base @ ''/odata/Jobs('' @ id' @ '')/UiPath.Server.Configuration.OData.StopJob'';
          body = PDict [(''strategy'', PStr ''2'')];
          (r, st') = session_request W
             \<lparr>rq_verb = POST, rq_url = url_query, rq_headers = headers, rq_params = [],
              rq_body = JsonBody body\<rparr> st2
      in case r of
           Inl e \<Rightarrow> (Inl e, st')
         | Inr response \<Rightarrow> plain_result 200 response st')"

definition list_machines ::
  "lib \<Rightarrow> world \<Rightarrow> string \<Rightarrow> string option \<Rightarrow> state \<Rightarrow> (error + Response) \<times> state" where
  "list_machines L W fid save_as st0 =
     (let st1 = logger_info ''Retrieving a list of all machines.'' st0;
          token = cfg_token (configuration st1);
          url_base = cfg_url_base (configuration st1);
          headers = folder_headers L token fid;
          url_query = url_base @ ''/odata/Machines'';
          alias_list = alias_list_of ListMachines;
          params = [(''$select'', join '','' alias_list)];
          (r, st') = session_request W
             \<lparr>rq_verb = GET, rq_url = url_query, rq_headers = headers, rq_params = params,
              rq_body = NoBody\<rparr> st1
      in case r of
           Inl e \<Rightarrow> (Inl e, st')
         | Inr response \<Rightarrow> parsed_result L W 200 ListMachines ''list'' save_as response st')"

definition list_processes ::
  "lib \<Rightarrow> world \<Rightarrow> string \<Rightarrow> string option \<Rightarrow> state \<Rightarrow> (error + Response) \<times> state" where
  "list_processes L W fid save_as st0 =
     (let st1 = logger_info ''Retrieving a comprehensive list of all processes.'' st0;
          token = cfg_token (configuration st1);
          url_base = cfg_url_base (configuration st1);
          headers = folder_headers L token fid;
          url_query = url_base @ ''/odata/Processes'';
          alias_list = alias_list_of ListProcesses;
          params = [(''$select'', join '','' alias_list)];
          (r, st') = session_request W
             \<lparr>rq_verb = GET, rq_url = url_query, rq_headers = headers, rq_params = params,
              rq_body = NoBody\<rparr> st1
      in case r of
           Inl e \<Rightarrow> (Inl e, st')
         | Inr response \<Rightarrow> parsed_result L W 200 ListProcesses ''list'' save_as response st')"

definition list_queues ::
  "lib \<Rightarrow> world \<Rightarrow> string \<Rightarrow> string option \<Rightarrow> state \<Rightarrow> (error + Response) \<times> state" where
  "list_queues L W fid save_as st0 =
     (let st1 = logger_info ''Retrieving a comprehensive list of all queues.'' st0;
          token = cfg_token (configuration st1);
          url_base = cfg_url_base (configuration st1);
          headers = folder_headers L token fid;
          url_query = url_base @ ''/odata/QueueDefinitions'';
          alias_list = alias_list_of ListQueues;
          params = [(''$select'', join '','' alias_list)];
          (r, st') = session_request W
             \<lparr>rq_verb = GET, rq_url = url_query, rq_headers = headers, rq_params = params,
              rq_body = NoBody\<rparr> st1
      in case r of
           Inl e \<Rightarrow> (Inl e, st')
         | Inr response \<Rightarrow> parsed_result L W 200 ListQueues ''list'' save_as response st')"

definition list_queue_items ::
  "lib \<Rightarrow> world \<Rightarrow> string \<Rightarrow> string \<Rightarrow> string option \<Rightarrow> state \<Rightarrow> (error + Response) \<times> state" where
  "list_queue_items L W fid filter' save_as st0 =
     (let st1 = logger_info ''Retrieving a list of queue items using the provided filter criteria.'' st0;
          st2 = logger_info filter' st1;
          token = cfg_token (configuration st2);
          url_base = cfg_url_base (configuration st2);
          headers = folder_headers L token fid;
          url_query = url_base @ ''/odata/QueueItems'';
          alias_list = alias_list_of ListQueueItems;
          params = [(''$select'', join '','' alias_list), (''$filter'', filter')];
          (r, st') = session_request W
             \<lparr>rq_verb = GET, rq_url = url_query, rq_headers = headers, rq_params = params,
              rq_body = NoBody\<rparr> st2
      in case r of
           Inl e \<Rightarrow> (Inl e, st')
         | Inr response \<Rightarrow> parsed_result L W 200 ListQueueItems ''list'' save_as response st')"

definition get_queue_item ::
  "lib \<Rightarrow> world \<Rightarrow> string \<Rightarrow> int \<Rightarrow> string option \<Rightarrow> state \<Rightarrow> (error + Response) \<times> state" where
  "get_queue_item L W fid id' save_as st0 =
     (let st1 = logger_info ''Retrieving details for the specified queue item from the queue.'' st0;
          st2 = logger_info (str_int id') st1;
          token = cfg_token (configuration st2);
          url_base = cfg_url_base (configuration st2);
          headers = folder_headers L token fid;
          url_query = url_base @ ''/odata/QueueItems('' @ str_int id' @ '')'';
          alias_list = alias_list_of GetQueueItem;
          params = [(''$select'', join '','' alias_list)];
          (r, st') = session_request W
             \<lparr>rq_verb = GET, rq_url = url_query, rq_headers = headers, rq_params = params,
              rq_body = NoBody\<rparr> st2
      in case r of
           Inl e \<Rightarrow> (Inl e, st')
         | Inr response \<Rightarrow> parsed_result L W 200 GetQueueItem ''scalar'' save_as response st')"

text \<open>
  \<^verbatim>\<open>add_queue_item\<close> tests the status code twice: 409 (a warning is logged) and 201.
\<close>

definition add_queue_item ::
  "lib \<Rightarrow> world \<Rightarrow> string \<Rightarrow> string \<Rightarrow> (string \<times> pyval) list \<Rightarrow> string \<Rightarrow> string \<Rightarrow> string option
     \<Rightarrow> state \<Rightarrow> (error + Response) \<times> state" where
  "add_queue_item L W fid queue data reference priority save_as st0 =
     (let st1 = logger_info ''Adding an item to the queue.'' st0;
          st2 = logger_info queue st1;
          st3 = logger_info reference st2;
          token = cfg_token (configuration st3);
          url_base = cfg_url_base (configuration st3);
          headers = folder_headers L token fid;
          url_query = url_base @ ''/odata/Queues/UiPathODataSvc.AddQueueItem'';
          alias_list = alias_list_of AddQueueItem;
          params = [(''$select'', join '','' alias_list)];
          body = PDict [(''itemData'',
                   PDict [(''Name'', PStr queue), (''Priority'', PStr priority),
                          (''DeferDate'', PNone), (''DueDate'', PNone),
                          (''Reference'', PStr reference), (''SpecificContent'', PDict data)])];
          (r, st4) = session_request W
             \<lparr>rq_verb = POST, rq_url = url_query, rq_headers = headers, rq_params = params,
              rq_body = JsonBody body\<rparr> st3
      in case r of
           Inl e \<Rightarrow> (Inl e, st4)
         | Inr response \<Rightarrow>
             (let st5 = logger_info (''HTTP Status Code '' @ str_int (http_status response)) st4;
                  st6 = (if http_status response = 409
                         then logger_warning
                                (''Item with reference '' @ reference @ '' already in the queue'') st5
                         else st5)
              in if http_status response = 201 then
                   (let st7 = logger_info ''Request successful'' st6;
                        (x, st8) = export_to_json W (http_content response) save_as st7
                    in case x of
                         Inl e \<Rightarrow> (Inl e, st8)
                       | Inr u \<Rightarrow>
                           (case handle_response L response AddQueueItem ''scalar'' of
                              Inl e \<Rightarrow> (Inl e, st8)
                            | Inr c \<Rightarrow>
                                (Inr \<lparr>status_code = http_status response, content = c\<rparr>, st8)))
                 else (Inr \<lparr>status_code = http_status response, content = PNone\<rparr>, st6)))"

definition update_queue_item ::
  "lib \<Rightarrow> world \<Rightarrow> string \<Rightarrow> string \<Rightarrow> int \<Rightarrow> (string \<times> pyval) list \<Rightarrow> state \<Rightarrow> (error + Response) \<times> state" where
  "update_queue_item L W fid queue id' data st0 =
     (let st1 = logger_info ''Updating a queue item in the queue.'' st0;
          st2 = logger_info queue st1;
          token = cfg_token (configuration st2);
          url_base = cfg_url_base (configuration st2);
          headers = folder_headers L token fid;
          url_query = url_base @ ''/odata/QueueItems('' @ str_int id' @ '')'';
          body = PDict [(''Name'', PStr queue), (''Priority'', PStr ''High''),
                        (''SpecificContent'', PDict data), (''DeferDate'', PNone),
                        (''DueDate'', PNone), (''RiskSlaDate'', PNone)];
          (r, st') = session_request W
             \<lparr>rq_verb = PUT, rq_url = url_query, rq_headers = headers, rq_params = [],
              rq_body = JsonBody body\<rparr> st2
      in case r of
           Inl e \<Rightarrow> (Inl e, st')
         | Inr response \<Rightarrow> plain_result 200 response st')"

definition delete_queue_item ::
  "lib \<Rightarrow> world \<Rightarrow> string \<Rightarrow> int \<Rightarrow> state \<Rightarrow> (error + Response) \<times> state" where
  "delete_queue_item L W fid id' st0 =
     (let st1 = logger_info ''Deleting the specified queue item from the queue.'' st0;
          st2 = logger_info (str_int id') st1;
          token = cfg_token (configuration st2);
          url_base = cfg_url_base (configuration st2);
          headers = folder_headers L token fid;
          url_query = url_base @ ''/odata/QueueItems('' @ str_int id' @ '')'';
          (r, st') = session_request W
             \<lparr>rq_verb = DELETE, rq_url = url_query, rq_headers = headers, rq_params = [],
              rq_body = NoBody\<rparr> st2
      in case r of
           Inl e \<Rightarrow> (Inl e, st')
         | Inr response \<Rightarrow> plain_result 204 response st')"

definition list_releases ::
  "lib \<Rightarrow> world \<Rightarrow> string \<Rightarrow> string option \<Rightarrow> state \<Rightarrow> (error + Response) \<times> state" where
  "list_releases L W fid save_as st0 =
     (let st1 = logger_info ''Retrieving the list of all process releases.'' st0;
          token = cfg_token (configuration st1);
          url_base = cfg_url_base (configuration st1);
          headers = folder_headers L token fid;
          url_query = url_base @ ''/odata/Releases'';
          alias_list = alias_list_of ListReleases;
          params = [(''$select'', join '','' alias_list)];
          (r, st') = session_request W
             \<lparr>rq_verb = GET, rq_url = url_query, rq_headers = headers, rq_params = params,
              rq_body = NoBody\<rparr> st1
      in case r of
           Inl e \<Rightarrow> (Inl e, st')
         | Inr response \<Rightarrow> parsed_result L W 200 ListReleases ''list'' save_as response st')"

definition list_robots ::
  "lib \<Rightarrow> world \<Rightarrow> string \<Rightarrow> string option \<Rightarrow> state \<Rightarrow> (error + Response) \<times> state" where
  "list_robots L W fid save_as st0 =
     (let st1 = logger_info ''Retrieving a comprehensive list of all robots.'' st0;
          token = cfg_token (configuration st1);
          url_base = cfg_url_base (configuration st1);
          headers = folder_headers L token fid;
          url_query = url_base @ ''/odata/Robots'';
          alias_list = alias_list_of ListRobots;
          params = [(''$select'', join '','' alias_list)];
          (r, st') = session_request W
             \<lparr>rq_verb = GET, rq_url = url_query, rq_headers = headers, rq_params = params,
              rq_body = NoBody\<rparr> st1
      in case r of
           Inl e \<Rightarrow> (Inl e, st')
         | Inr response \<Rightarrow> parsed_result L W 200 ListRobots ''list'' save_as response st')"

definition list_robot_logs ::
  "lib \<Rightarrow> world \<Rightarrow> string \<Rightarrow> string \<Rightarrow> string option \<Rightarrow> state \<Rightarrow> (error + Response) \<times> state" where
  "list_robot_logs L W fid filter' save_as st0 =
     (let st1 = logger_info ''Retrieving robot logs based on the provided filter criteria.'' st0;
          token = cfg_token (configuration st1);
          url_base = cfg_url_base (configuration st1);
          headers = folder_headers L token fid;
          url_query = url_base @ ''/odata/RobotLogs'';
          alias_list = alias_list_of ListRobotLogs;
          params = [(''$select'', join '','' alias_list), (''$filter'', filter')];
          (r, st') = session_request W
             \<lparr>rq_verb = GET, rq_url = url_query, rq_headers = headers, rq_params = params,
              rq_body = NoBody\<rparr> st1
      in case r of
           Inl e \<Rightarrow> (Inl e, st')
         | Inr response \<Rightarrow> parsed_result L W 200 ListRobotLogs ''list'' save_as response st')"

definition list_roles ::
  "lib \<Rightarrow> world \<Rightarrow> string option \<Rightarrow> state \<Rightarrow> (error + Response) \<times> state" where
  "list_roles L W save_as st0 =
     (let st1 = logger_info ''Retrieving a comprehensive list of all roles.'' st0;
          token = cfg_token (configuration st1);
          url_base = cfg_url_base (configuration st1);
          headers = [(''Content-Type'', ''application/json''),
                     (''Authorization'', ''Bearer '' @ py_str L token)];
          url_query = url_base @ ''/odata/Roles'';
          alias_list = alias_list_of ListRoles;
          params = [(''$select'', join '','' alias_list)];
          (r, st') = session_request W
             \<lparr>rq_verb = GET, rq_url = url_query, rq_headers = headers, rq_params = params,
              rq_body = NoBody\<rparr> st1
      in case r of
           Inl e \<Rightarrow> (Inl e, st')
         | Inr response \<Rightarrow> parsed_result L W 200 ListRoles ''list'' save_as response st')"

definition list_schedules ::
  "lib \<Rightarrow> world \<Rightarrow> string \<Rightarrow> string option \<Rightarrow> state \<Rightarrow> (error + Response) \<times> state" where
  "list_schedules L W fid save_as st0 =
     (let st1 = logger_info ''Retrieving a comprehensive list of all schedules.'' st0;
          token = cfg_token (configuration st1);
          url_base = cfg_url_base (configuration st1);
          headers = folder_headers L token fid;
          url_query = url_base @ ''/odata/ProcessSchedules'';
          alias_list = alias_list_of ListSchedules;
          params = [(''$select'', join '','' alias_list)];
          (r, st') = session_request W
             \<lparr>rq_verb = GET, rq_url = url_query, rq_headers = headers, rq_params = params,
              rq_body = NoBody\<rparr> st1
      in case r of
           Inl e \<Rightarrow> (Inl e, st')
         | Inr response \<Rightarrow> parsed_result L W 200 ListSchedules ''list'' save_as response st')"

definition list_sessions ::
  "lib \<Rightarrow> world \<Rightarrow> string \<Rightarrow> string option \<Rightarrow> state \<Rightarrow> (error + Response) \<times> state" where
  "list_sessions L W fid save_as st0 =
     (let st1 = logger_info ''Retrieving a comprehensive list of all active sessions.'' st0;
          token = cfg_token (configuration st1);
          url_base = cfg_url_base (configuration st1);
          headers = folder_headers L token fid;
          url_query = url_base @ ''/odata/Sessions'';
          alias_list = alias_list_of ListSessions;
          params = [(''$select'', join '','' alias_list)];
          (r, st') = session_request W
             \<lparr>rq_verb = GET, rq_url = url_query, rq_headers = headers, rq_params = params,
              rq_body = NoBody\<rparr> st1
      in case r of
           Inl e \<Rightarrow> (Inl e, st')
         | Inr response \<Rightarrow> parsed_result L W 200 ListSessions ''list'' save_as response st')"

section \<open>Every API method\<close>

text \<open>
  One invocation of a public method other than the constructor, \<^verbatim>\<open>auth\<close> and
  \<^verbatim>\<open>is_auth\<close>, with its arguments in the order of the signature.
\<close>

datatype call =
    Call_list_assets string "string option"
  | Call_list_buckets string "string option"
  | Call_create_bucket string string string "string option"
  | Call_delete_bucket string string
  | Call_upload_bucket_file string string string string
  | Call_delete_bucket_file string string string
  | Call_list_calendars string "string option"
  | Call_list_environments string "string option"
  | Call_list_jobs string string "string option"
  | Call_start_job string string "int option"
  | Call_stop_job string string
  | Call_list_machines string "string option"
  | Call_list_processes string "string option"
  | Call_list_queues string "string option"
  | Call_list_queue_items string string "string option"
  | Call_get_queue_item string int "string option"
  | Call_add_queue_item string string "(string \<times> pyval) list" string string "string option"
  | Call_update_queue_item string string int "(string \<times> pyval) list"
  | Call_delete_queue_item string int
  | Call_list_releases string "string option"
  | Call_list_robots string "string option"
  | Call_list_robot_logs string string "string option"
  | Call_list_roles "string option"
  | Call_list_schedules string "string option"
  | Call_list_sessions string "string option"

fun run :: "lib \<Rightarrow> world \<Rightarrow> call \<Rightarrow> state \<Rightarrow> (error + Response) \<times> state" where
  "run L W (Call_list_assets fid save_as) st = list_assets L W fid save_as st"
| "run L W (Call_list_buckets fid save_as) st = list_buckets L W fid save_as st"
| "run L W (Call_create_bucket fid name guid description) st =
     create_bucket L W fid name guid description st"
| "run L W (Call_delete_bucket fid id') st = delete_bucket L W fid id' st"
| "run L W (Call_upload_bucket_file fid id' localpath remotepath) st =
     upload_bucket_file L W fid id' localpath remotepath st"
| "run L W (Call_delete_bucket_file fid id' filename) st =
     delete_bucket_file L W fid id' filename st"
| "run L W (Call_list_calendars fid save_as) st = list_calendars L W fid save_as st"
| "run L W (Call_list_environments fid save_as) st = list_environments L W fid save_as st"
| "run L W (Call_list_jobs fid filter' save_as) st = list_jobs L W fid filter' save_as st"
| "run L W (Call_start_job fid process_key robot_id) st =
     start_job L W fid process_key robot_id st"
| "run L W (Call_stop_job fid id') st = stop_job L W fid id' st"
| "run L W (Call_list_machines fid save_as) st = list_machines L W fid save_as st"
| "run L W (Call_list_processes fid save_as) st = list_processes L W fid save_as st"
| "run L W (Call_list_queues fid save_as) st = list_queues L W fid save_as st"
| "run L W (Call_list_queue_items fid filter' save_as) st =
     list_queue_items L W fid filter' save_as st"
| "run L W (Call_get_queue_item fid id' save_as) st = get_queue_item L W fid id' save_as st"
| "run L W (Call_add_queue_item fid queue data reference priority save_as) st =
     add_queue_item L W fid queue data reference priority save_as st"
| "run L W (Call_update_queue_item fid queue id' data) st =
     update_queue_item L W fid queue id' data st"
| "run L W (Call_delete_queue_item fid id') st = delete_queue_item L W fid id' st"
| "run L W (Call_list_releases fid save_as) st = list_releases L W fid save_as st"
| "run L W (Call_list_robots fid save_as) st = list_robots L W fid save_as st"
| "run L W (Call_list_robot_logs fid filter' save_as) st =
     list_robot_logs L W fid filter' save_as st"
| "run L W (Call_list_roles save_as) st = list_roles L W save_as st"
| "run L W (Call_list_schedules fid save_as) st = list_schedules L W fid save_as st"
| "run L W (Call_list_sessions fid save_as) st = list_sessions L W fid save_as st"

text \<open>
  The status code a method compares the response with before it reports success; none
  for \<^verbatim>\<open>start_job\<close>, which compares with nothing.
\<close>

fun success_code :: "call \<Rightarrow> int option" where
  "success_code (Call_create_bucket fid name guid description) = Some 201"
| "success_code (Call_delete_bucket fid id') = Some 204"
| "success_code (Call_delete_bucket_file fid id' filename) = Some 204"
| "success_code (Call_start_job fid process_key robot_id) = None"
| "success_code (Call_add_queue_item fid queue data reference priority save_as) = Some 201"
| "success_code (Call_delete_queue_item fid id') = Some 204"
| "success_code c = Some 200"


text \<open>The \<^verbatim>\<open>fid\<close> argument; \<^verbatim>\<open>list_roles\<close> has none.\<close>

fun fid_of :: "call \<Rightarrow> string option" where
  "fid_of (Call_list_assets fid save_as) = Some fid"
| "fid_of (Call_list_buckets fid save_as) = Some fid"
| "fid_of (Call_create_bucket fid name guid description) = Some fid"
| "fid_of (Call_delete_bucket fid id') = Some fid"
| "fid_of (Call_upload_bucket_file fid id' localpath remotepath) = Some fid"
| "fid_of (Call_delete_bucket_file fid id' filename) = Some fid"
| "fid_of (Call_list_calendars fid save_as) = Some fid"
| "fid_of (Call_list_environments fid save_as) = Some fid"
| "fid_of (Call_list_jobs fid filter' save_as) = Some fid"
| "fid_of (Call_start_job fid process_key robot_id) = Some fid"
| "fid_of (Call_stop_job fid id') = Some fid"
| "fid_of (Call_list_machines fid save_as) = Some fid"
| "fid_of (Call_list_processes fid save_as) = Some fid"
| "fid_of (Call_list_queues fid save_as) = Some fid"
| "fid_of (Call_list_queue_items fid filter' save_as) = Some fid"
| "fid_of (Call_get_queue_item fid id' save_as) = Some fid"
| "fid_of (Call_add_queue_item fid queue data reference priority save_as) = Some fid"
| "fid_of (Call_update_queue_item fid queue id' data) = Some fid"
| "fid_of (Call_delete_queue_item fid id') = Some fid"
| "fid_of (Call_list_releases fid save_as) = Some fid"
| "fid_of (Call_list_robots fid save_as) = Some fid"
| "fid_of (Call_list_robot_logs fid filter' save_as) = Some fid"
| "fid_of (Call_list_roles save_as) = None"
| "fid_of (Call_list_schedules fid save_as) = Some fid"
| "fid_of (Call_list_sessions fid save_as) = Some fid"


fun is_upload :: "call \<Rightarrow> bool" where
  "is_upload (Call_upload_bucket_file fid id' localpath remotepath) = True"
| "is_upload c = False"

fun is_add_queue_item :: "call \<Rightarrow> bool" where
  "is_add_queue_item (Call_add_queue_item fid queue data reference priority save_as) = True"
| "is_add_queue_item c = False"

text \<open>The requests issued between two states of the client.\<close>

definition new_requests :: "state \<Rightarrow> state \<Rightarrow> request list" where
  "new_requests st st' = drop (length (sent st)) (sent st')"

text \<open>The network answers request number \<open>n\<close> with \<open>r\<close>, whatever the request is.\<close>

definition answers :: "world \<Rightarrow> nat \<Rightarrow> http_response \<Rightarrow> bool" where
  "answers W n r = (\<forall>q. respond W n q = Some r)"

text \<open>The log line \<^verbatim>\<open>f"HTTP Status Code {response.status_code}"\<close>.\<close>

definition status_line :: "int \<Rightarrow> level \<times> string" where
  "status_line s = (INFO, ''HTTP Status Code '' @ str_int s)"

section \<open>Notions used in the statements\<close>

text \<open>
  The write URI \<^verbatim>\<open>upload_bucket_file\<close> reads from its first response
  (\<^verbatim>\<open>response.json()["Uri"]\<close>), if that expression does not raise.
\<close>

definition write_uri :: "lib \<Rightarrow> http_response \<Rightarrow> pyval option" where
  "write_uri L r =
     (case response_json L r of
        Inl e \<Rightarrow> None
      | Inr j \<Rightarrow> (case py_getitem j ''Uri'' of Inl e \<Rightarrow> None | Inr uri \<Rightarrow> Some uri))"

text \<open>
  Two final states show the same reaction to the status codes \<open>s1\<close> and \<open>s2\<close>: they
  agree on everything but the last log record, which is the status line of the code.
\<close>

definition same_reaction :: "state \<Rightarrow> int \<Rightarrow> state \<Rightarrow> int \<Rightarrow> bool" where
  "same_reaction st1 s1 st2 s2 =
     (configuration st1 = configuration st2 \<and> sent st1 = sent st2 \<and> fs st1 = fs st2 \<and>
      writes st1 = writes st2 \<and> log st1 \<noteq> [] \<and> log st2 \<noteq> [] \<and>
      butlast (log st1) = butlast (log st2) \<and>
      last (log st1) = status_line s1 \<and> last (log st2) = status_line s2)"

text \<open>
  What validation makes of one field: the input is read under the alias; a missing
  optional field is \<^verbatim>\<open>None\<close>.
\<close>

definition field_result :: "lib \<Rightarrow> fld \<Rightarrow> (string \<times> pyval) list \<Rightarrow> pyval option" where
  "field_result L f kw =
     (case map_of kw (alias_of f) of
        None \<Rightarrow> if fld_optional f then Some PNone else None
      | Some v \<Rightarrow> validate_field L f v)"

text \<open>
  A field is mapped flatly from the input \<open>kw\<close> to the output \<open>d\<close>: the output under the
  local name is the input under the alias, coerced to the declared type (\<^verbatim>\<open>None\<close>
  stays \<^verbatim>\<open>None\<close>, and so does a missing key).
\<close>

definition flat_field :: "lib \<Rightarrow> fld \<Rightarrow> (string \<times> pyval) list \<Rightarrow> (string \<times> pyval) list \<Rightarrow> bool" where
  "flat_field L f kw d =
     (map_of d (fld_name f) =
        (case map_of kw (alias_of f) of
           None \<Rightarrow> Some PNone
         | Some v \<Rightarrow> if v = PNone then Some PNone else coerce L (fld_type f) v))"


section \<open>A sample library, network and client\<close>

text \<open>
  Concrete inputs for evaluating the definitions. The sample type validators accept the
  values that already have the declared type, and an integer number of POSIX seconds
  for a datetime; the sample parser knows the four bodies below. Requests are answered
  from a list of prepared responses, in order, and a file can be opened for writing
  when its path has no directory part.
\<close>

fun coerce0 :: "ftype \<Rightarrow> pyval \<Rightarrow> pyval option" where
  "coerce0 TInt (PInt i) = Some (PInt i)"
| "coerce0 TStr (PStr s) = Some (PStr s)"
| "coerce0 TBool (PBool b) = Some (PBool b)"
| "coerce0 TList (PList xs) = Some (PList xs)"
| "coerce0 TDatetime (PInt n) =
     (if \<bar>n\<bar> \<le> 20000000000 then Some (PDatetime (Datetime (n * 1000000) (Some 0))) else None)"
| "coerce0 t v = None"

definition body_buckets :: string where
  \<open>body_buckets = ''{"value": [{"Id": 7, "Identifier": "b-7", "Name": "reports"}]}''\<close>

definition body_uri :: string where
  \<open>body_uri = ''{"Uri": "https://blob.example.org/w?sig=1"}''\<close>

definition body_added :: string where
  \<open>body_added = ''{"Id": 11, "OrganizationUnitId": 3, "QueueDefinitionId": 5}''\<close>

definition body_token :: string where
  \<open>body_token = ''{"access_token": "tok", "expires_in": 3600, "token_type": "Bearer"}''\<close>

definition json_loads0 :: "string \<Rightarrow> pyval option" where
  "json_loads0 s =
     (if s = body_buckets then
        Some (PDict [(''value'',
          PList [PDict [(''Id'', PInt 7), (''Identifier'', PStr ''b-7''),
                        (''Name'', PStr ''reports'')]])])
      else if s = body_uri then
        Some (PDict [(''Uri'', PStr ''https://blob.example.org/w?sig=1'')])
      else if s = body_added then
        Some (PDict [(''Id'', PInt 11), (''OrganizationUnitId'', PInt 3),
                     (''QueueDefinitionId'', PInt 5)])
      else if s = body_token then
        Some (PDict [(''access_token'', PStr ''tok''), (''expires_in'', PInt 3600),
                     (''token_type'', PStr ''Bearer'')])
      else None)"

definition lib0 :: lib where
  "lib0 = \<lparr>json_loads = json_loads0, coerce = coerce0, dict_builtin = (\<lambda>v. None),
           py_repr = (\<lambda>v. [])\<rparr>"

definition script :: "http_response list \<Rightarrow> world" where
  "script rs =
     \<lparr>respond = (\<lambda>n q. if n < length rs then Some (rs ! n) else None),
      writable = (\<lambda>path. CHR ''/'' \<notin> set path)\<rparr>"

definition client0 :: state where
  "client0 =
     \<lparr>configuration =
        \<lparr>cfg_url_base = ''https://cloud.uipath.com/acme/tenant/orchestrator_'',
         cfg_client_id = ''app'', cfg_refresh_token = ''secret'',
         cfg_token = PStr ''tok'', cfg_scope = ''OR.Default''\<rparr>,
      sent = [], fs = [''report.csv'' \<mapsto> ''a,b''], writes = [], log = []\<rparr>"

definition reply :: "int \<Rightarrow> string \<Rightarrow> http_response" where
  "reply s b = \<lparr>http_status = s, http_content = b\<rparr>"

definition add_call :: call where
  "add_call = Call_add_queue_item ''1234'' ''invoices'' [(''amount'', PInt 10)] ''ref-1'' ''Normal'' None"

definition upload_call :: call where
  "upload_call = Call_upload_bucket_file ''1234'' ''5'' ''report.csv'' ''in/report.csv''"

definition machine_record :: "(string \<times> pyval) list" where
  "machine_record =
     [(''Id'', PInt 3), (''Name'', PStr ''vm-3''), (''Type'', PStr ''Standard''),
      (''NonProductionSlots'', PInt 0), (''UnattendedSlots'', PInt 2),
      (''RobotVersions'',
         PList [PDict [(''Count'', PInt 1), (''Version'', PStr ''23.4.2''), (''MachineId'', PInt 3)]])]"

definition machine_dict :: "(string \<times> pyval) list" where
  "machine_dict =
     [(''id'', PInt 3), (''name'', PStr ''vm-3''), (''description'', PNone),
      (''type'', PStr ''Standard''), (''non_production_slots'', PInt 0),
      (''unattended_slots'', PInt 2), (''robot_versions'', PStr ''23.4.2'')]"

definition robot_versions :: fld where
  "robot_versions = (opt ''robot_versions'' ''RobotVersions'' TStr)\<lparr>fld_pre := Some extract_robot_version\<rparr>"

section \<open>Auxiliary facts\<close>

lemmas api_defs = list_assets_def list_buckets_def create_bucket_def delete_bucket_def
  upload_bucket_file_def delete_bucket_file_def list_calendars_def list_environments_def
  list_jobs_def start_job_def stop_job_def list_machines_def list_processes_def
  list_queues_def list_queue_items_def get_queue_item_def add_queue_item_def
  update_queue_item_def delete_queue_item_def list_releases_def list_robots_def
  list_robot_logs_def list_roles_def list_schedules_def list_sessions_def

lemma lower_list: "lower ''list'' = ''list''"
  by (simp add: lower_def lower_char_def)

lemma lower_scalar: "lower ''scalar'' = ''scalar''"
  by (simp add: lower_def lower_char_def)

lemma logger_info_sel [simp]:
  "configuration (logger_info m st) = configuration st"
  "sent (logger_info m st) = sent st"
  "fs (logger_info m st) = fs st"
  "writes (logger_info m st) = writes st"
  "log (logger_info m st) = log st @ [(INFO, m)]"
  by (simp_all add: logger_info_def)

lemma logger_warning_sel [simp]:
  "configuration (logger_warning m st) = configuration st"
  "sent (logger_warning m st) = sent st"
  "fs (logger_warning m st) = fs st"
  "writes (logger_warning m st) = writes st"
  "log (logger_warning m st) = log st @ [(WARNING, m)]"
  by (simp_all add: logger_warning_def)

lemma session_request_sel [simp]:
  "configuration (snd (session_request W q st)) = configuration st"
  "sent (snd (session_request W q st)) = sent st @ [q]"
  "fs (snd (session_request W q st)) = fs st"
  "writes (snd (session_request W q st)) = writes st"
  "log (snd (session_request W q st)) = log st"
  by (simp_all add: session_request_def split: option.splits)

lemma export_to_json_sel [simp]:
  "configuration (snd (export_to_json W c sv st)) = configuration st"
  "sent (snd (export_to_json W c sv st)) = sent st"
  by (simp_all add: export_to_json_def Let_def split: option.splits)

lemma parsed_result_cfg [simp]:
  "configuration (snd (parsed_result L W e m rt sv r st)) = configuration st"
  by (simp add: parsed_result_def Let_def split_beta split: sum.splits)

lemma plain_result_cfg [simp]:
  "configuration (snd (plain_result e r st)) = configuration st"
  by (simp add: plain_result_def Let_def)

lemma export_to_json_more [simp]:
  "writes (snd (export_to_json W c sv st)) =
     writes st @ (case sv of None \<Rightarrow> [] | Some p \<Rightarrow> if writable W p then [(p, c)] else [])"
  "fs (snd (export_to_json W c sv st)) =
     (case sv of None \<Rightarrow> fs st | Some p \<Rightarrow> if writable W p then (fs st)(p \<mapsto> c) else fs st)"
  "fst (export_to_json W c sv st) =
     (case sv of None \<Rightarrow> Inr () | Some p \<Rightarrow> if writable W p then Inr () else Inl (OSError p))"
  by (simp_all add: export_to_json_def Let_def split: option.splits)

lemma session_request_answers:
  "answers W (length (sent st)) r \<Longrightarrow>
   session_request W q st = (Inr r, st\<lparr>sent := sent st @ [q]\<rparr>)"
  by (simp add: session_request_def answers_def)

lemma parsed_result_other:
  "http_status r \<noteq> e \<Longrightarrow>
   parsed_result L W e m rt sv r st =
     (Inr \<lparr>status_code = http_status r, content = PNone\<rparr>,
      st\<lparr>log := log st @ [status_line (http_status r)]\<rparr>)"
  by (simp add: parsed_result_def Let_def logger_info_def status_line_def)

lemma plain_result_other:
  "http_status r \<noteq> e \<Longrightarrow>
   plain_result e r st =
     (Inr \<lparr>status_code = http_status r, content = PNone\<rparr>,
      st\<lparr>log := log st @ [status_line (http_status r)]\<rparr>)"
  by (simp add: plain_result_def Let_def logger_info_def status_line_def)

lemma parsed_result_sent [simp]:
  "sent (snd (parsed_result L W e m rt sv r st)) = sent st"
  by (simp add: parsed_result_def Let_def split_beta split: sum.splits)

lemma plain_result_sent [simp]:
  "sent (snd (plain_result e r st)) = sent st"
  by (simp add: plain_result_def Let_def)



lemma plain_result_writes [simp]:
  "writes (snd (plain_result e r st)) = writes st"
  "fs (snd (plain_result e r st)) = fs st"
  by (simp_all add: plain_result_def Let_def)




lemma handle_response_not_None: "handle_response L r m rt \<noteq> Inr PNone"
  by (simp add: handle_response_def split: sum.splits)

lemma parsed_result_content:
  "fst (parsed_result L W e m rt sv r st) = Inr R \<Longrightarrow> content R \<noteq> PNone \<Longrightarrow> status_code R = e"
  by (auto simp add: parsed_result_def Let_def split_beta split: if_splits sum.splits)

lemma plain_result_content:
  "fst (plain_result e r st) = Inr R \<Longrightarrow> content R = PNone"
  by (auto simp add: plain_result_def Let_def split: if_splits)

lemma content_only_on_success:
  "fst (run L W c st) = Inr R \<Longrightarrow> content R \<noteq> PNone \<Longrightarrow> success_code c = Some (status_code R)"
  by (cases c)
     (auto simp add: api_defs Let_def split_beta
        dest: parsed_result_content plain_result_content
        split: sum.splits option.splits if_splits)

lemma uniform_reaction:
  assumes "answers W1 (length (sent st)) r1" "answers W2 (length (sent st)) r2"
      and "success_code c \<noteq> Some (http_status r1)" "success_code c \<noteq> Some (http_status r2)"
      and "is_add_queue_item c \<longrightarrow> http_status r1 \<noteq> 409 \<and> http_status r2 \<noteq> 409"
  shows "same_reaction (snd (run L W1 c st)) (http_status r1) (snd (run L W2 c st)) (http_status r2)"
  using assms
  by (cases c)
     (simp_all add: api_defs Let_def session_request_answers parsed_result_other
        plain_result_other same_reaction_def butlast_append status_line_def)

lemma add_queue_item_409:
  assumes "answers W (length (sent st)) r" "http_status r = 409"
  shows "fst (add_queue_item L W fid queue data reference priority sv st) = Inr \<lparr>status_code = 409, content = PNone\<rparr> \<and>
     last (log (snd (add_queue_item L W fid queue data reference priority sv st))) =
       (WARNING, ''Item with reference '' @ reference @ '' already in the queue'')"
  using assms
  by (simp add: add_queue_item_def Let_def session_request_answers)

lemma count_non_upload:
  "\<not> is_upload c \<Longrightarrow> length (new_requests st (snd (run L W c st))) = 1"
  by (cases c)
     (simp_all add: api_defs Let_def split_beta new_requests_def
        split: sum.splits option.splits)

lemma count_upload:
  "length (new_requests st (snd (upload_bucket_file L W fid id' lp rp st))) = 1 \<or>
   length (new_requests st (snd (upload_bucket_file L W fid id' lp rp st))) = 2"
  by (simp add: upload_bucket_file_def Let_def split_beta new_requests_def
        split: sum.splits option.splits)

lemma count_upload_exact:
  "answers W (length (sent st)) r \<Longrightarrow>
   length (new_requests st (snd (upload_bucket_file L W fid id' lp rp st))) =
     (if http_status r = 200 \<and> write_uri L r \<noteq> None \<and> fs st lp \<noteq> None then 2 else 1)"
  by (auto simp add: upload_bucket_file_def Let_def split_beta new_requests_def write_uri_def
        session_request_answers
        split: sum.splits option.splits)

lemma validate_fields_ok:
  "snd (validate_fields L flds kw) = [] \<Longrightarrow>
   fst (validate_fields L flds kw) = map (\<lambda>f. (fld_name f, the (field_result L f kw))) flds \<and>
   (\<forall>f\<in>set flds. field_result L f kw \<noteq> None)"
  by (induction flds)
     (auto simp add: field_result_def split: prod.splits option.splits if_splits)

lemma map_of_tabulate:
  "distinct (map g xs) \<Longrightarrow> x \<in> set xs \<Longrightarrow> map_of (map (\<lambda>y. (g y, h y)) xs) (g x) = Some (h x)"
  by (induction xs) (auto simp add: image_iff)

lemma validate_lookup:
  assumes "distinct (map fld_name (model_fields m))"
      and "validate L m kw = Inr d"
      and "f \<in> set (model_fields m)"
  shows "map_of d (fld_name f) = field_result L f kw \<and> field_result L f kw \<noteq> None"
proof -
  from assms(2) have e: "snd (validate_fields L (model_fields m) kw) = []"
    and d: "d = fst (validate_fields L (model_fields m) kw)"
    by (auto simp add: validate_def split: prod.splits list.splits)
  from validate_fields_ok [OF e] d assms(3)
  have d': "d = map (\<lambda>f. (fld_name f, the (field_result L f kw))) (model_fields m)"
    and ok: "field_result L f kw \<noteq> None"
    by auto
  from map_of_tabulate [OF assms(1) assms(3), of "\<lambda>f. the (field_result L f kw)"] d' ok
  show ?thesis by auto
qed


lemmas model_defs = ListAssets_def ListBuckets_def ListCalendars_def ListEnvironments_def
  ListJobs_def ListMachines_def ListProcesses_def ListQueues_def ListQueueItems_def
  GetQueueItem_def AddQueueItem_def ListReleases_def ListRobots_def ListRobotLogs_def
  ListRoles_def ListSchedules_def ListSessions_def

lemma all_distinct_names:
  "list_all (\<lambda>m. distinct (map fld_name (model_fields m))) all_models"
  by (simp add: all_models_def model_defs req_def opt_def)

lemma all_pre_validators:
  "list_all (\<lambda>m. list_all (\<lambda>f. fld_pre f = None \<or>
       (model_name m = ''ListMachines'' \<and> fld_name f = ''robot_versions'' \<and>
        fld_alias f = Some ''RobotVersions'' \<and> fld_type f = TStr \<and>
        fld_pre f = Some extract_robot_version)) (model_fields m)) all_models"
  by (simp add: all_models_def model_defs req_def opt_def)

lemma distinct_names:
  "m \<in> set all_models \<Longrightarrow> distinct (map fld_name (model_fields m))"
  using all_distinct_names by (simp add: list_all_iff)

lemma only_pre_validator:
  assumes "m \<in> set all_models" and "f \<in> set (model_fields m)" and "fld_pre f \<noteq> None"
  shows "model_name m = ''ListMachines'' \<and> fld_name f = ''robot_versions'' \<and>
   fld_alias f = Some ''RobotVersions'' \<and> fld_type f = TStr \<and>
   fld_pre f = Some extract_robot_version"
proof -
  note A = all_pre_validators [unfolded list_all_iff]
  from bspec [OF bspec [OF A assms(1)] assms(2)] assms(3) show ?thesis
    by simp
qed


lemma answers_script: "answers (script (r # rs)) (length (sent client0)) r"
  by (simp add: answers_def script_def client0_def)


lemmas eval_defs = api_defs Let_def session_request_def script_def client0_def reply_def
  logger_info_def logger_warning_def parsed_result_def plain_result_def export_to_json_def
  handle_response_def lower_list lower_scalar response_json_def lib0_def json_loads0_def
  body_buckets_def body_uri_def body_added_def body_token_def parse_obj_as_list_def model_validate_def
  model_init_def validate_def req_def opt_def alias_of_def validate_field_def alias_list_of_def
  folder_headers_def new_requests_def

lemma validate_machine: "validate lib0 ListMachines machine_record = Inr machine_dict"
  by (simp add: validate_def ListMachines_def req_def opt_def alias_of_def validate_field_def
        lib0_def machine_record_def machine_dict_def)

section \<open>The claims\<close>

subsection \<open>C1: what the list methods return\<close>




subsection \<open>C2: an unexpected status code\<close>

text \<open>
  Claim C2. For every API method and every status code other than the method's success
  code, the method returns a Response with that status code and content \<^verbatim>\<open>None\<close>,
  and it has issued exactly one request: nothing is retried. (\<^verbatim>\<open>start_job\<close> has
  no success code, so this holds for every status code it receives.)
\<close>

theorem unexpected_status_gives_no_content_and_no_retry:
  assumes "answers W (length (sent st)) r"
      and "success_code c \<noteq> Some (http_status r)"
  shows "fst (run L W c st) = Inr \<lparr>status_code = http_status r, content = PNone\<rparr> \<and>
         length (new_requests st (snd (run L W c st))) = 1"
  using assms
  by (cases c)
     (simp_all add: api_defs Let_def session_request_answers parsed_result_other
        plain_result_other new_requests_def)



text \<open>\<^verbatim>\<open>delete_bucket\<close> on a 404 response.\<close>

theorem unexpected_status_gives_no_content_and_no_retry_witness:
  "fst (run lib0 (script [reply 404 []]) (Call_delete_bucket ''1234'' ''5'') client0) =
     Inr \<lparr>status_code = 404, content = PNone\<rparr> \<and>
   length (new_requests client0
     (snd (run lib0 (script [reply 404 []]) (Call_delete_bucket ''1234'' ''5'') client0))) = 1"
  using unexpected_status_gives_no_content_and_no_retry [OF answers_script [of "reply 404 []" "[]"],
      where c = "Call_delete_bucket ''1234'' ''5''" and L = lib0]
  by (simp add: reply_def)


subsection \<open>C3: status codes a method tells apart\<close>

text \<open>
  Claim C3 says that no method branches on more than one status-code value. It fails
  for \<^verbatim>\<open>add_queue_item\<close>, whose success code is 201: the final states after a 409 and
  after a 500 response differ by more than the status line, because 409 is tested as
  well and logs a warning.
\<close>

theorem add_queue_item_distinguishes_409:
  "success_code add_call \<noteq> Some 409 \<and> success_code add_call \<noteq> Some 500 \<and>
   \<not> same_reaction (snd (run lib0 (script [reply 409 []]) add_call client0)) 409
                     (snd (run lib0 (script [reply 500 []]) add_call client0)) 500"
  by (simp add: add_call_def same_reaction_def status_line_def eval_defs)

text \<open>
  Claim C3, amended. For every method the returned content is not \<^verbatim>\<open>None\<close> only
  when the returned status code is the method's success code. Any two status codes
  other than the success code get the same reaction, a status line in the log and
  nothing else, provided that for \<^verbatim>\<open>add_queue_item\<close> neither of them is 409. On 409
  \<^verbatim>\<open>add_queue_item\<close> returns no content either, and the last thing it logs is a
  warning.
\<close>

theorem status_checks_per_method:
  "(\<forall>R. fst (run L W c st) = Inr R \<and> content R \<noteq> PNone \<longrightarrow>
        success_code c = Some (status_code R)) \<and>
   (answers W1 (length (sent st)) r1 \<and> answers W2 (length (sent st)) r2 \<and>
    success_code c \<noteq> Some (http_status r1) \<and> success_code c \<noteq> Some (http_status r2) \<and>
    (is_add_queue_item c \<longrightarrow> http_status r1 \<noteq> 409 \<and> http_status r2 \<noteq> 409) \<longrightarrow>
      same_reaction (snd (run L W1 c st)) (http_status r1)
                    (snd (run L W2 c st)) (http_status r2)) \<and>
   (answers W (length (sent st)) r \<and> http_status r = 409 \<longrightarrow>
      fst (add_queue_item L W fid queue data reference priority save_as st) =
        Inr \<lparr>status_code = 409, content = PNone\<rparr> \<and>
      last (log (snd (add_queue_item L W fid queue data reference priority save_as st))) =
        (WARNING, ''Item with reference '' @ reference @ '' already in the queue''))"
  using content_only_on_success [of L W c st] uniform_reaction [of W1 st r1 W2 r2 c L]
    add_queue_item_409 [of W st r L fid queue data reference priority save_as]
  by blast


text \<open>
  \<^verbatim>\<open>list_buckets\<close> returning content on 200; \<^verbatim>\<open>add_queue_item\<close> on 404 against
  500, and on 409.
\<close>

theorem status_checks_per_method_witness:
  "success_code (Call_list_buckets ''1234'' None) = Some 200 \<and>
   same_reaction (snd (run lib0 (script [reply 404 []]) add_call client0)) 404
                 (snd (run lib0 (script [reply 500 []]) add_call client0)) 500 \<and>
   fst (run lib0 (script [reply 409 []]) add_call client0) =
     Inr \<lparr>status_code = 409, content = PNone\<rparr> \<and>
   last (log (snd (run lib0 (script [reply 409 []]) add_call client0))) =
     (WARNING, ''Item with reference ref-1 already in the queue'')"
proof -
  have ok: "fst (run lib0 (script [reply 200 body_buckets]) (Call_list_buckets ''1234'' None) client0) =
     Inr \<lparr>status_code = 200, content =
       PList [PDict [(''id'', PInt 7), (''identifier'', PStr ''b-7''), (''name'', PStr ''reports''),
                     (''description'', PNone)]]\<rparr>"
    by (simp add: eval_defs ListBuckets_def)
  note T = status_checks_per_method [where L = lib0 and st = client0]
  from T [where c = "Call_list_buckets ''1234'' None" and W = "script [reply 200 body_buckets]"] ok
  have a: "success_code (Call_list_buckets ''1234'' None) = Some 200"
    by simp
  from T [where c = add_call and ?W1.0 = "script [reply 404 []]" and ?r1.0 = "reply 404 []"
      and ?W2.0 = "script [reply 500 []]" and ?r2.0 = "reply 500 []"]
    answers_script [of "reply 404 []" "[]"] answers_script [of "reply 500 []" "[]"]
  have b: "same_reaction (snd (run lib0 (script [reply 404 []]) add_call client0)) 404
                 (snd (run lib0 (script [reply 500 []]) add_call client0)) 500"
    by (simp add: add_call_def reply_def)
  from T [where W = "script [reply 409 []]" and r = "reply 409 []" and fid = "''1234''"
      and queue = "''invoices''" and data = "[(''amount'', PInt 10)]" and reference = "''ref-1''"
      and priority = "''Normal''" and save_as = None]
    answers_script [of "reply 409 []" "[]"]
  have c: "fst (run lib0 (script [reply 409 []]) add_call client0) =
     Inr \<lparr>status_code = 409, content = PNone\<rparr> \<and>
   last (log (snd (run lib0 (script [reply 409 []]) add_call client0))) =
     (WARNING, ''Item with reference ref-1 already in the queue'')"
    by (simp add: add_call_def reply_def)
  from a b c show ?thesis by simp
qed

subsection \<open>C4: the headers of a request\<close>

text \<open>
  Claim C4 says that every method sends the folder header. \<^verbatim>\<open>list_roles\<close> takes no
  \<^verbatim>\<open>fid\<close> argument and its request has no \<^verbatim>\<open>X-UIPATH-OrganizationUnitID\<close> header.
\<close>

theorem list_roles_sends_no_folder_header:
  "map (\<lambda>q. map_of (rq_headers q) ''X-UIPATH-OrganizationUnitID'')
     (new_requests client0
        (snd (run lib0 (script [reply 200 body_buckets]) (Call_list_roles None) client0))) = [None]"
  by (simp add: eval_defs ListRoles_def)

text \<open>
  Claim C4, amended. Every method issues at least one request, and the first one
  carries \<^verbatim>\<open>Authorization: Bearer <token>\<close> with the stored token; it carries
  \<^verbatim>\<open>X-UIPATH-OrganizationUnitID\<close> set to \<^verbatim>\<open>fid\<close> for every method that has a
  \<^verbatim>\<open>fid\<close> argument and no such header for \<^verbatim>\<open>list_roles\<close>. A later request (the
  upload to the write URI) carries the single header \<^verbatim>\<open>x-ms-blob-type: BlockBlob\<close>.
\<close>

theorem requests_carry_token_and_folder:
  "case new_requests st (snd (run L W c st)) of
     [] \<Rightarrow> False
   | q # qs \<Rightarrow>
       map_of (rq_headers q) ''Authorization'' =
         Some (''Bearer '' @ py_str L (cfg_token (configuration st))) \<and>
       map_of (rq_headers q) ''X-UIPATH-OrganizationUnitID'' = fid_of c \<and>
       map rq_headers qs = replicate (length qs) [(''x-ms-blob-type'', ''BlockBlob'')]"
  by (cases c)
     (simp_all add: api_defs Let_def split_beta new_requests_def folder_headers_def
        split: sum.splits option.splits)

text \<open>
  An upload answered with 200 and a write URI: the GET carries the token and the folder,
  the PUT only the blob header.
\<close>

theorem requests_carry_token_and_folder_witness:
  "map_of (rq_headers (hd (new_requests client0
      (snd (run lib0 (script [reply 200 body_uri, reply 201 []]) upload_call client0)))))
      ''Authorization'' = Some ''Bearer tok'' \<and>
   map_of (rq_headers (hd (new_requests client0
      (snd (run lib0 (script [reply 200 body_uri, reply 201 []]) upload_call client0)))))
      ''X-UIPATH-OrganizationUnitID'' = Some ''1234'' \<and>
   map rq_headers (tl (new_requests client0
      (snd (run lib0 (script [reply 200 body_uri, reply 201 []]) upload_call client0)))) =
     [[(''x-ms-blob-type'', ''BlockBlob'')]]"
proof -
  have n: "length (new_requests client0
      (snd (run lib0 (script [reply 200 body_uri, reply 201 []]) upload_call client0))) = 2"
    by (simp add: upload_call_def eval_defs)
  have t: "py_str lib0 (cfg_token (configuration client0)) = ''tok''"
    and f: "fid_of upload_call = Some ''1234''"
    by (simp_all add: client0_def upload_call_def)
  from requests_carry_token_and_folder [where st = client0 and L = lib0
      and W = "script [reply 200 body_uri, reply 201 []]" and c = upload_call] n
  show ?thesis
    unfolding t f
    by (cases "new_requests client0
      (snd (run lib0 (script [reply 200 body_uri, reply 201 []]) upload_call client0))")
       simp_all
qed

subsection \<open>C5: the number of requests\<close>

text \<open>
  Claim C5 says that every method issues exactly one request. \<^verbatim>\<open>upload_bucket_file\<close>
  issues two when the first response has status 200: a GET for the write URI, then a
  PUT of the file.
\<close>

theorem upload_issues_two_requests:
  "map rq_verb (new_requests client0
        (snd (run lib0 (script [reply 200 body_uri, reply 201 []]) upload_call client0))) = [GET, PUT]"
  by (simp add: upload_call_def eval_defs)


text \<open>
  Claim C5, amended. Every method other than \<^verbatim>\<open>upload_bucket_file\<close> issues exactly
  one request per invocation. \<^verbatim>\<open>upload_bucket_file\<close> issues one or two; given the
  first response, it issues two exactly when that response has status 200, its body
  yields a write URI and the local file can be opened.
\<close>

theorem requests_per_invocation:
  "(\<not> is_upload c \<longrightarrow> length (new_requests st (snd (run L W c st))) = 1) \<and>
   (length (new_requests st (snd (upload_bucket_file L W fid id' localpath remotepath st))) = 1 \<or>
    length (new_requests st (snd (upload_bucket_file L W fid id' localpath remotepath st))) = 2) \<and>
   (answers W (length (sent st)) r \<longrightarrow>
    length (new_requests st (snd (upload_bucket_file L W fid id' localpath remotepath st))) =
      (if http_status r = 200 \<and> write_uri L r \<noteq> None \<and> fs st localpath \<noteq> None
       then 2 else 1))"
proof (intro conjI impI)
  show "length (new_requests st (snd (run L W c st))) = 1" if "\<not> is_upload c"
    using that by (rule count_non_upload)
  show "length (new_requests st (snd (upload_bucket_file L W fid id' localpath remotepath st))) = 1 \<or>
    length (new_requests st (snd (upload_bucket_file L W fid id' localpath remotepath st))) = 2"
    by (rule count_upload)
  show "length (new_requests st (snd (upload_bucket_file L W fid id' localpath remotepath st))) =
      (if http_status r = 200 \<and> write_uri L r \<noteq> None \<and> fs st localpath \<noteq> None
       then 2 else 1)" if "answers W (length (sent st)) r"
    using that by (rule count_upload_exact)
qed


text \<open>
  \<^verbatim>\<open>list_buckets\<close>; an upload whose first response is 200; an upload whose first
  response is 503.
\<close>

theorem requests_per_invocation_witness:
  "length (new_requests client0
     (snd (run lib0 (script [reply 200 body_buckets]) (Call_list_buckets ''1234'' None) client0))) = 1 \<and>
   length (new_requests client0
     (snd (run lib0 (script [reply 200 body_uri, reply 201 []]) upload_call client0))) = 2 \<and>
   length (new_requests client0
     (snd (run lib0 (script [reply 503 []]) upload_call client0))) = 1"
proof -
  note T = requests_per_invocation [where L = lib0 and st = client0 and fid = "''1234''" and id' = "''5''"
      and localpath = "''report.csv''" and remotepath = "''in/report.csv''"]
  have u: "write_uri lib0 (reply 200 body_uri) \<noteq> None" "fs client0 ''report.csv'' \<noteq> None"
    by (simp_all add: write_uri_def eval_defs)
  from T [where c = "Call_list_buckets ''1234'' None" and W = "script [reply 200 body_buckets]"]
  have a: "length (new_requests client0
     (snd (run lib0 (script [reply 200 body_buckets]) (Call_list_buckets ''1234'' None) client0))) = 1"
    by simp
  from T [where W = "script [reply 200 body_uri, reply 201 []]" and r = "reply 200 body_uri"]
    answers_script [of "reply 200 body_uri" "[reply 201 []]"] u
  have b: "length (new_requests client0
     (snd (run lib0 (script [reply 200 body_uri, reply 201 []]) upload_call client0))) = 2"
    by (simp add: upload_call_def reply_def)
  from T [where W = "script [reply 503 []]" and r = "reply 503 []"]
    answers_script [of "reply 503 []" "[]"]
  have c: "length (new_requests client0
     (snd (run lib0 (script [reply 503 []]) upload_call client0))) = 1"
    by (simp add: upload_call_def reply_def)
  from a b c show ?thesis by simp
qed

subsection \<open>C6: the token and the stored configuration\<close>

text \<open>
  Claim C6. The bearer token is fetched at construction and never refreshed afterwards.
  The constructor is \<^verbatim>\<open>auth\<close> on the freshly stored credentials: when the token
  endpoint answers 200 with a JSON object, the constructor has issued one request, to
  the token endpoint, and stores the object's \<^verbatim>\<open>access_token\<close> next to the
  credentials it was given. No API method modifies the stored configuration: the base
  URL, the client id, the refresh token, the token and the scope are after every
  invocation what they were before it.
\<close>

theorem token_fetched_once_at_construction:
  "(answers W 0 r \<and> http_status r = 200 \<and>
    json_loads L (http_content r) = Some (PDict d) \<and> map_of d ''access_token'' = Some t \<longrightarrow>
      fst (init L W files url_base client_id refresh_token scope) = Inr () \<and>
      configuration (snd (init L W files url_base client_id refresh_token scope)) =
        \<lparr>cfg_url_base = url_base, cfg_client_id = client_id,
         cfg_refresh_token = refresh_token, cfg_token = t, cfg_scope = scope\<rparr> \<and>
      map rq_url (sent (snd (init L W files url_base client_id refresh_token scope))) =
        [''https://cloud.uipath.com/adidas/identity_/connect/token'']) \<and>
   (answers W (length (sent st)) r \<and> http_status r = 200 \<and>
    json_loads L (http_content r) = Some (PDict d) \<and> map_of d ''access_token'' = Some t \<longrightarrow>
      fst (auth L W st) = Inr () \<and>
      configuration (snd (auth L W st)) = (configuration st)\<lparr>cfg_token := t\<rparr> \<and>
      length (new_requests st (snd (auth L W st))) = 1) \<and>
   configuration (snd (run L W c st)) = configuration st"
proof (intro conjI impI)
  assume "answers W 0 r \<and> http_status r = 200 \<and>
    json_loads L (http_content r) = Some (PDict d) \<and> map_of d ''access_token'' = Some t"
  then have "answers W 0 r" "http_status r = 200"
    "json_loads L (http_content r) = Some (PDict d)" "map_of d ''access_token'' = Some t"
    by simp_all
  then show "fst (init L W files url_base client_id refresh_token scope) = Inr ()"
    and "configuration (snd (init L W files url_base client_id refresh_token scope)) =
        \<lparr>cfg_url_base = url_base, cfg_client_id = client_id,
         cfg_refresh_token = refresh_token, cfg_token = t, cfg_scope = scope\<rparr>"
    and "map rq_url (sent (snd (init L W files url_base client_id refresh_token scope))) =
        [''https://cloud.uipath.com/adidas/identity_/connect/token'']"
    by (simp_all add: init_def auth_def Let_def session_request_answers response_json_def)
next
  assume "answers W (length (sent st)) r \<and> http_status r = 200 \<and>
    json_loads L (http_content r) = Some (PDict d) \<and> map_of d ''access_token'' = Some t"
  then have "answers W (length (sent st)) r" "http_status r = 200"
    "json_loads L (http_content r) = Some (PDict d)" "map_of d ''access_token'' = Some t"
    by simp_all
  then show "fst (auth L W st) = Inr ()"
    and "configuration (snd (auth L W st)) = (configuration st)\<lparr>cfg_token := t\<rparr>"
    and "length (new_requests st (snd (auth L W st))) = 1"
    by (simp_all add: auth_def Let_def session_request_answers response_json_def
          new_requests_def)
next
  show "configuration (snd (run L W c st)) = configuration st"
    by (cases c) (simp_all add: api_defs Let_def split_beta split: sum.splits option.splits)
qed

text \<open>
  A constructor call answered with 200 and a token, and \<^verbatim>\<open>auth\<close> called again on the
  sample client.
\<close>

theorem token_fetched_once_at_construction_witness:
  "fst (init lib0 (script [reply 200 body_token]) Map.empty ''https://cloud.uipath.com/acme''
          ''app'' ''secret'' ''OR.Default'') = Inr () \<and>
   configuration (snd (init lib0 (script [reply 200 body_token]) Map.empty
          ''https://cloud.uipath.com/acme'' ''app'' ''secret'' ''OR.Default'')) =
     \<lparr>cfg_url_base = ''https://cloud.uipath.com/acme'', cfg_client_id = ''app'',
      cfg_refresh_token = ''secret'', cfg_token = PStr ''tok'', cfg_scope = ''OR.Default''\<rparr> \<and>
   map rq_url (sent (snd (init lib0 (script [reply 200 body_token]) Map.empty
          ''https://cloud.uipath.com/acme'' ''app'' ''secret'' ''OR.Default''))) =
     [''https://cloud.uipath.com/adidas/identity_/connect/token''] \<and>
   length (new_requests client0 (snd (auth lib0 (script [reply 200 body_token]) client0))) = 1"
proof -
  have h: "answers (script [reply 200 body_token]) 0 (reply 200 body_token)"
    "answers (script [reply 200 body_token]) (length (sent client0)) (reply 200 body_token)"
    by (simp_all add: answers_def script_def client0_def)
  have j: "http_status (reply 200 body_token) = 200"
    "json_loads lib0 (http_content (reply 200 body_token)) =
       Some (PDict [(''access_token'', PStr ''tok''), (''expires_in'', PInt 3600),
                    (''token_type'', PStr ''Bearer'')])"
    "map_of [(''access_token'', PStr ''tok''), (''expires_in'', PInt 3600),
             (''token_type'', PStr ''Bearer'')] ''access_token'' = Some (PStr ''tok'')"
    by (simp_all add: reply_def lib0_def json_loads0_def body_token_def body_buckets_def
          body_uri_def body_added_def)
  from token_fetched_once_at_construction [where W = "script [reply 200 body_token]"
      and r = "reply 200 body_token" and L = lib0 and t = "PStr ''tok''"
      and d = "[(''access_token'', PStr ''tok''), (''expires_in'', PInt 3600),
                (''token_type'', PStr ''Bearer'')]"
      and files = Map.empty and url_base = "''https://cloud.uipath.com/acme''"
      and client_id = "''app''" and refresh_token = "''secret''" and scope = "''OR.Default''"
      and st = client0] h j
  show ?thesis
    by simp
qed

subsection \<open>C7: saving the raw response\<close>




subsection \<open>C8: field mapping\<close>

text \<open>
  Claim C8 says that validation only renames and coerces. The field
  \<^verbatim>\<open>robot_versions\<close> of \<^verbatim>\<open>ListMachines\<close> has a pre-validator: on the list the API
  sends under \<^verbatim>\<open>RobotVersions\<close> the record validates and the output is the
  \<^verbatim>\<open>Version\<close> of the first entry, whereas the list itself is no string.
\<close>

theorem robot_versions_is_transformed:
  "ListMachines \<in> set all_models \<and> robot_versions \<in> set (model_fields ListMachines) \<and>
   validate lib0 ListMachines machine_record = Inr machine_dict \<and>
   \<not> flat_field lib0 robot_versions machine_record machine_dict"
  by (simp add: validate_machine all_models_def)
     (simp add: ListMachines_def robot_versions_def flat_field_def opt_def alias_of_def
        machine_record_def machine_dict_def lib0_def)


text \<open>
  Claim C8, amended. For every schema and every record that validates: a field without
  a pre-validator is mapped flatly, its output being the input under the alias coerced
  to the declared type. The only field with a pre-validator is \<^verbatim>\<open>robot_versions\<close>
  of \<^verbatim>\<open>ListMachines\<close>; its output is the coerced result of
  \<^verbatim>\<open>extract_robot_version\<close> on the input under \<^verbatim>\<open>RobotVersions\<close>.
\<close>

theorem schema_fields_are_mapped:
  assumes "m \<in> set all_models"
      and "validate L m kw = Inr d"
      and "f \<in> set (model_fields m)"
  shows "(fld_pre f = None \<longrightarrow> flat_field L f kw d) \<and>
         (fld_pre f \<noteq> None \<longrightarrow>
            model_name m = ''ListMachines'' \<and> fld_name f = ''robot_versions'' \<and>
            fld_pre f = Some extract_robot_version \<and>
            map_of d ''robot_versions'' =
              (case map_of kw ''RobotVersions'' of
                 None \<Rightarrow> Some PNone
               | Some v \<Rightarrow>
                   if extract_robot_version v = PNone then Some PNone
                   else coerce L TStr (extract_robot_version v)))"
proof -
  from validate_lookup [OF distinct_names [OF assms(1)] assms(2) assms(3)]
  have look: "map_of d (fld_name f) = field_result L f kw" and ok: "field_result L f kw \<noteq> None"
    by auto
  have flat: "flat_field L f kw d" if "fld_pre f = None"
    using look ok that
    by (auto simp add: flat_field_def field_result_def validate_field_def
          split: option.splits if_splits)
  have pre: "model_name m = ''ListMachines'' \<and> fld_name f = ''robot_versions'' \<and>
            fld_pre f = Some extract_robot_version \<and>
            map_of d ''robot_versions'' =
              (case map_of kw ''RobotVersions'' of
                 None \<Rightarrow> Some PNone
               | Some v \<Rightarrow>
                   if extract_robot_version v = PNone then Some PNone
                   else coerce L TStr (extract_robot_version v))" if "fld_pre f \<noteq> None"
  proof -
    from only_pre_validator [OF assms(1) assms(3) that]
    have f: "model_name m = ''ListMachines''" "fld_name f = ''robot_versions''"
      "fld_alias f = Some ''RobotVersions''" "fld_type f = TStr"
      "fld_pre f = Some extract_robot_version"
      by auto
    from look ok f show ?thesis
      by (auto simp add: field_result_def validate_field_def alias_of_def
            split: option.splits if_splits)
  qed
  from flat pre show ?thesis by blast
qed


text \<open>The fields \<^verbatim>\<open>name\<close> and \<^verbatim>\<open>robot_versions\<close> of a machine record.\<close>

theorem schema_fields_are_mapped_witness:
  "flat_field lib0 (req ''name'' ''Name'' TStr) machine_record machine_dict \<and>
   map_of machine_dict ''robot_versions'' = Some (PStr ''23.4.2'')"
proof -
  have m: "ListMachines \<in> set all_models"
    by (simp add: all_models_def)
  have f1: "req ''name'' ''Name'' TStr \<in> set (model_fields ListMachines)"
    and f2: "robot_versions \<in> set (model_fields ListMachines)"
    by (simp_all add: ListMachines_def robot_versions_def)
  from schema_fields_are_mapped [OF m validate_machine f1]
  have a: "flat_field lib0 (req ''name'' ''Name'' TStr) machine_record machine_dict"
    by (simp add: req_def)
  from schema_fields_are_mapped [OF m validate_machine f2]
  have b: "map_of machine_dict ''robot_versions'' = Some (PStr ''23.4.2'')"
    by (simp add: robot_versions_def opt_def machine_record_def lib0_def)
  from a b show ?thesis by simp
qed

subsection \<open>C9: a failed authentication\<close>

text \<open>
  Claim C9. If the token endpoint answers the constructor's request with a status other
  than 200, the constructor returns normally, the stored token is \<^verbatim>\<open>None\<close> and
  \<^verbatim>\<open>is_auth\<close> then returns \<^verbatim>\<open>False\<close>. In any state \<^verbatim>\<open>is_auth\<close> returns
  \<^verbatim>\<open>True\<close> if and only if the stored token is not \<^verbatim>\<open>None\<close>.
\<close>

theorem failed_authentication_is_silent:
  "(answers W 0 r \<and> http_status r \<noteq> 200 \<longrightarrow>
      fst (init L W files url_base client_id refresh_token scope) = Inr () \<and>
      cfg_token (configuration (snd (init L W files url_base client_id refresh_token scope))) = PNone \<and>
      \<not> fst (is_auth (snd (init L W files url_base client_id refresh_token scope)))) \<and>
   (fst (is_auth st) \<longleftrightarrow> cfg_token (configuration st) \<noteq> PNone)"
proof -
  have a: "fst (init L W files url_base client_id refresh_token scope) = Inr () \<and>
      cfg_token (configuration (snd (init L W files url_base client_id refresh_token scope))) = PNone \<and>
      \<not> fst (is_auth (snd (init L W files url_base client_id refresh_token scope)))"
    if "answers W 0 r" and "http_status r \<noteq> 200"
    using that
    by (simp add: init_def auth_def is_auth_def Let_def session_request_answers)
  have b: "fst (is_auth st) \<longleftrightarrow> cfg_token (configuration st) \<noteq> PNone"
    by (simp add: is_auth_def Let_def)
  from a b show ?thesis by blast
qed


text \<open>A constructor call answered with 401, and \<^verbatim>\<open>is_auth\<close> on a client with a token.\<close>

theorem failed_authentication_is_silent_witness:
  "fst (init lib0 (script [reply 401 []]) Map.empty ''https://cloud.uipath.com/acme'' ''app''
          ''secret'' ''OR.Default'') = Inr () \<and>
   cfg_token (configuration (snd (init lib0 (script [reply 401 []]) Map.empty
          ''https://cloud.uipath.com/acme'' ''app'' ''secret'' ''OR.Default''))) = PNone \<and>
   \<not> fst (is_auth (snd (init lib0 (script [reply 401 []]) Map.empty
          ''https://cloud.uipath.com/acme'' ''app'' ''secret'' ''OR.Default''))) \<and>
   fst (is_auth client0)"
proof -
  have h: "answers (script [reply 401 []]) 0 (reply 401 [])"
    by (simp add: answers_def script_def)
  from failed_authentication_is_silent [where W = "script [reply 401 []]" and r = "reply 401 []" and L = lib0
      and files = Map.empty and url_base = "''https://cloud.uipath.com/acme''"
      and client_id = "''app''" and refresh_token = "''secret''" and scope = "''OR.Default''"
      and st = client0] h
  show ?thesis
    by (simp add: reply_def client0_def)
qed

subsection \<open>C10: the two queue item schemas\<close>

text \<open>
  Claim C10. \<^verbatim>\<open>GetQueueItem\<close> and \<^verbatim>\<open>ListQueueItems\<close> declare the same fields, and
  validating a record against one gives the result of validating it against the other:
  both succeed with the same dict or both fail.
\<close>

theorem queue_item_schemas_equivalent:
  "model_fields GetQueueItem = model_fields ListQueueItems \<and>
   validate L GetQueueItem kw = validate L ListQueueItems kw"
  by (simp add: GetQueueItem_def ListQueueItems_def validate_def)

end
